theory Spec2Isabelle
  imports Main "HOL-Library.Product_Lexorder"
begin

section \<open>Time\<close>

text \<open>
  Instants are milliseconds since the epoch, as a JavaScript \<open>Date\<close> holds them. An ISO
  string of a request and a \<open>TIMESTAMP\<close> column denote such an instant; \<open>parseISO\<close> and
  \<open>toISOString\<close> are the identity on this representation. The helpers are those of
  \<open>date-fns\<close>. The process is taken to run in UTC, so local midnight is a
  multiple of one day.
\<close>

type_synonym instant = int

definition addMinutes :: "instant \<Rightarrow> int \<Rightarrow> instant" where
  "addMinutes t m = t + m * 60000"

definition addHours :: "instant \<Rightarrow> int \<Rightarrow> instant" where
  "addHours t h = t + h * 3600000"

definition addDays :: "instant \<Rightarrow> int \<Rightarrow> instant" where
  "addDays t d = t + d * 86400000"

definition startOfDay :: "instant \<Rightarrow> instant" where
  "startOfDay t = (t div 86400000) * 86400000"

text \<open>
  A value handed to \<open>parseISO\<close> is an ISO string, as a request carries it, or a
  \<open>Date\<close> object. \<open>config/database.js\<close> creates a plain \<open>Pool\<close>, and node-postgres then
  returns the \<open>TIMESTAMP\<close> and \<open>DATE\<close> columns of a row as \<open>Date\<close> objects.
  \<open>parseISO\<close> reads strings only: given a \<open>Date\<close> object, date-fns 2 returns
  \<open>Invalid Date\<close> and date-fns 3 and later throw a \<open>TypeError\<close>. \<open>None\<close> is that
  outcome. The repository does not fix the version; where the two behaviours lead to
  different results, the operation takes \<open>parse_throws\<close> as an argument.
\<close>

datatype js_time = IsoString instant | DateObject instant

fun parseISO :: "js_time \<Rightarrow> instant option" where
  "parseISO (IsoString t) = Some t"
| "parseISO (DateObject t) = None"

definition pg_timestamp :: "instant \<Rightarrow> js_time" where
  "pg_timestamp t = DateObject t"

text \<open>\<open>a < b\<close> on two \<open>Date\<close>s: false when either is \<open>Invalid Date\<close>.\<close>

definition date_less :: "instant option \<Rightarrow> instant option \<Rightarrow> bool" where
  "date_less a b =
     (case a of None \<Rightarrow> False
      | Some x \<Rightarrow> (case b of None \<Rightarrow> False | Some y \<Rightarrow> x < y))"

section \<open>Errors\<close>

type_synonym uuid = nat

datatype error =
    ConflictError uuid
  | NotFoundError
  | ConstraintViolation string
  | GenericError string
  | TransportError

section \<open>The appointments table\<close>

text \<open>
  \<open>migrations/001_initial_schema.sql\<close>: the columns the services read or write, the
  status enumeration of \<open>chk_appointment_status\<close>, the check \<open>chk_appointment_times\<close>
  and the partial unique index \<open>idx_appointments_provider_time\<close>.
\<close>

datatype appt_status =
  Scheduled | Confirmed | Arrived | InProgress | Completed | Cancelled | NoShow

record appointment =
  appt_id :: uuid
  tenant_id :: uuid
  patient_id :: uuid
  provider_id :: uuid
  facility_id :: uuid
  series_id :: "uuid option"
  scheduled_start :: instant
  scheduled_end :: instant
  duration_minutes :: int
  status :: appt_status
  checked_in_at :: "instant option"
  cancelled_at :: "instant option"

record appointment_series =
  ser_id :: uuid
  ser_tenant_id :: uuid
  ser_patient_id :: uuid
  ser_provider_id :: uuid
  total_appointments :: nat

record db =
  appointments :: "appointment list"
  series :: "appointment_series list"

text \<open>\<open>status NOT IN ('cancelled', 'no-show')\<close>\<close>

definition live_status :: "appt_status \<Rightarrow> bool" where
  "live_status s = (s \<noteq> Cancelled \<and> s \<noteq> NoShow)"

definition chk_appointment_times :: "appointment \<Rightarrow> bool" where
  "chk_appointment_times a = (scheduled_end a > scheduled_start a)"

text \<open>
  The unique index on \<open>(provider_id, scheduled_start) WHERE status NOT IN ('cancelled',
  'no-show')\<close>: a written row \<open>a\<close> is refused when it is indexed and another indexed row
  has the same key.
\<close>

definition idx_provider_time_violation :: "appointment list \<Rightarrow> appointment \<Rightarrow> bool" where
  "idx_provider_time_violation rows a =
     (live_status (status a) \<and>
      list_ex (\<lambda>b. appt_id b \<noteq> appt_id a \<and> live_status (status b) \<and>
                    provider_id b = provider_id a \<and>
                    scheduled_start b = scheduled_start a) rows)"

definition row_constraints :: "appointment list \<Rightarrow> appointment \<Rightarrow> error + unit" where
  "row_constraints rows a =
     (if \<not> chk_appointment_times a then Inl (ConstraintViolation ''chk_appointment_times'')
      else if idx_provider_time_violation rows a
        then Inl (ConstraintViolation ''idx_appointments_provider_time'')
      else Inr ())"

text \<open>\<open>INSERT INTO appointments ... RETURNING *\<close>, with the primary key.\<close>

definition insert_appointment :: "appointment list \<Rightarrow> appointment \<Rightarrow> error + appointment list" where
  "insert_appointment rows a =
     (if list_ex (\<lambda>b. appt_id b = appt_id a) rows
        then Inl (ConstraintViolation ''appointments_pkey'')
      else case row_constraints rows a of
        Inl e \<Rightarrow> Inl e
      | Inr _ \<Rightarrow> Inr (rows @ [a]))"

text \<open>
  \<open>UPDATE appointments SET ... WHERE tenant_id = $1 AND id = $2 RETURNING *\<close>: the
  rows that match are rewritten by \<open>f\<close>; every rewritten row is checked against the
  constraints of the table; the result is the new table and the rows returned.
\<close>

definition row_matches :: "uuid \<Rightarrow> uuid \<Rightarrow> appointment \<Rightarrow> bool" where
  "row_matches tenantId appointmentId a = (tenant_id a = tenantId \<and> appt_id a = appointmentId)"

fun first_error :: "(error + unit) list \<Rightarrow> error + unit" where
  "first_error [] = Inr ()"
| "first_error (Inl e # _) = Inl e"
| "first_error (Inr _ # rs) = first_error rs"

definition update_appointments ::
  "appointment list \<Rightarrow> uuid \<Rightarrow> uuid \<Rightarrow> (appointment \<Rightarrow> appointment) \<Rightarrow>
   error + (appointment list \<times> appointment list)" where
  "update_appointments rows tenantId appointmentId f =
     (let rows' = map (\<lambda>a. if row_matches tenantId appointmentId a then f a else a) rows;
          returned = filter (row_matches tenantId appointmentId) rows'
      in case first_error (map (row_constraints rows') returned) of
           Inl e \<Rightarrow> Inl e
         | Inr _ \<Rightarrow> Inr (rows', returned))"

section \<open>Conflict checker\<close>

text \<open>
  \<open>AppointmentService.checkAppointmentConflicts\<close>: the rows the \<open>SELECT\<close> returns, with
  \<open>$1 = providerId\<close>, \<open>$2 = startTime\<close>, \<open>$3 = endTime\<close>; a non-empty result raises
  \<open>ConflictError\<close> with the id of the first row.
\<close>

definition conflict_rows :: "appointment list \<Rightarrow> uuid \<Rightarrow> instant \<Rightarrow> instant \<Rightarrow> appointment list" where
  "conflict_rows rows providerId startTime endTime =
     filter (\<lambda>a. provider_id a = providerId \<and>
                 live_status (status a) \<and>
                 ((scheduled_start a \<le> startTime \<and> scheduled_end a > startTime)
                  \<or> (scheduled_start a < endTime \<and> scheduled_end a \<ge> endTime)
                  \<or> (scheduled_start a \<ge> startTime \<and> scheduled_end a \<le> endTime))) rows"

definition checkAppointmentConflicts ::
  "appointment list \<Rightarrow> uuid \<Rightarrow> instant \<Rightarrow> instant \<Rightarrow> error + unit" where
  "checkAppointmentConflicts rows providerId startTime endTime =
     (case conflict_rows rows providerId startTime endTime of
        [] \<Rightarrow> Inr ()
      | r # _ \<Rightarrow> Inl (ConflictError (appt_id r)))"

text \<open>The half-open overlap test of the specification, on one stored row.\<close>

definition overlaps_interval :: "appointment \<Rightarrow> instant \<Rightarrow> instant \<Rightarrow> bool" where
  "overlaps_interval a proposedStart proposedEnd =
     (scheduled_start a < proposedEnd \<and> scheduled_end a > proposedStart)"

definition is_conflict :: "error + 'a \<Rightarrow> bool" where
  "is_conflict r = (case r of Inl (ConflictError _) \<Rightarrow> True | _ \<Rightarrow> False)"


section \<open>Appointment lifecycle\<close>

text \<open>
  \<open>AppointmentService\<close>. \<open>createAppointment\<close> and \<open>createAppointmentSeries\<close> return the
  database the call leaves behind together with the error thrown or the value returned;
  the other operations throw only before their \<open>COMMIT\<close>, and return either the error,
  the database being as it was, or the database after \<open>COMMIT\<close> with the value
  returned. A \<open>uuidv4()\<close> draw is an argument, and so is \<open>now\<close>, the value of
  \<open>new Date()\<close>. The columns no operation below reads (type, priority, reason, JSON
  details) are left out, and so are the audit log and the cache.
\<close>

record appointment_data =
  ad_patient_id :: uuid
  ad_provider_id :: uuid
  ad_facility_id :: uuid
  ad_scheduled_start :: instant
  ad_duration_minutes :: int

text \<open>
  \<open>queueAppointmentNotifications\<close> is called with the row that \<open>INSERT ... RETURNING *\<close>
  gave back, whose \<open>scheduled_start\<close> is a \<open>Date\<close> object. The array of the four
  notifications is built before the first publish, and building it evaluates
  \<open>addMinutes(scheduledStart, -72 * 60).toISOString()\<close>, a \<open>RangeError\<close> on
  \<open>Invalid Date\<close> (with date-fns 3, \<open>parseISO\<close> has thrown before): either way the call
  throws and publishes nothing.
\<close>

datatype appointment_notification = Appointment_confirmation | Appointment_reminder

record appointment_message =
  am_type :: appointment_notification
  am_appointmentId :: uuid
  am_patientId :: uuid
  am_scheduledFor :: instant
  am_priority :: nat

definition queueAppointmentNotifications ::
  "appointment \<Rightarrow> instant \<Rightarrow> error + appointment_message list" where
  "queueAppointmentNotifications appointment now =
     (case parseISO (pg_timestamp (scheduled_start appointment)) of
        None \<Rightarrow> Inl (GenericError ''Invalid time value'')
      | Some scheduledStart \<Rightarrow>
          Inr [\<lparr> am_type = Appointment_confirmation, am_appointmentId = appt_id appointment,
                 am_patientId = patient_id appointment, am_scheduledFor = now,
                 am_priority = 5 \<rparr>,
               \<lparr> am_type = Appointment_reminder, am_appointmentId = appt_id appointment,
                 am_patientId = patient_id appointment,
                 am_scheduledFor = addMinutes scheduledStart (- 72 * 60), am_priority = 5 \<rparr>,
               \<lparr> am_type = Appointment_reminder, am_appointmentId = appt_id appointment,
                 am_patientId = patient_id appointment,
                 am_scheduledFor = addMinutes scheduledStart (- 24 * 60), am_priority = 7 \<rparr>,
               \<lparr> am_type = Appointment_reminder, am_appointmentId = appt_id appointment,
                 am_patientId = patient_id appointment,
                 am_scheduledFor = addMinutes scheduledStart (- 2 * 60), am_priority = 9 \<rparr>])"

text \<open>
  \<open>createAppointment\<close>: \<open>scheduled_start\<close> is the ISO string of the request. The
  conflict check and the insert run inside the transaction; \<open>COMMIT\<close> comes before
  \<open>queueAppointmentNotifications(appointment)\<close>, so when that call throws, the
  \<open>ROLLBACK\<close> of the \<open>catch\<close> finds nothing to undo and the error reaches the caller
  with the row committed.
\<close>

definition createAppointment ::
  "db \<Rightarrow> instant \<Rightarrow> uuid \<Rightarrow> appointment_data \<Rightarrow> uuid \<Rightarrow> db \<times> (error + appointment)" where
  "createAppointment d now tenantId appointmentData appointmentId =
     (let startTime = ad_scheduled_start appointmentData;
          endTime = addMinutes startTime (ad_duration_minutes appointmentData)
      in case checkAppointmentConflicts (appointments d) (ad_provider_id appointmentData)
                startTime endTime of
           Inl e \<Rightarrow> (d, Inl e)
         | Inr _ \<Rightarrow>
             (let a = \<lparr> appt_id = appointmentId, tenant_id = tenantId,
                        patient_id = ad_patient_id appointmentData,
                        provider_id = ad_provider_id appointmentData,
                        facility_id = ad_facility_id appointmentData,
                        series_id = None,
                        scheduled_start = startTime, scheduled_end = endTime,
                        duration_minutes = ad_duration_minutes appointmentData,
                        status = Scheduled, checked_in_at = None, cancelled_at = None \<rparr>
              in case insert_appointment (appointments d) a of
                   Inl e \<Rightarrow> (d, Inl e)
                 | Inr rows \<Rightarrow>
                     (case queueAppointmentNotifications a now of
                        Inl e \<Rightarrow> (d\<lparr>appointments := rows\<rparr>, Inl e)
                      | Inr _ \<Rightarrow> (d\<lparr>appointments := rows\<rparr>, Inr a))))"

text \<open>
  \<open>getAppointmentById\<close>: the row of the tenant with that id (the joined patient,
  provider and facility rows exist by the foreign keys; every operation that changes a
  row deletes its cache entry, so the cached copy is the stored row).
\<close>

definition getAppointmentById :: "db \<Rightarrow> uuid \<Rightarrow> uuid \<Rightarrow> appointment option" where
  "getAppointmentById d tenantId appointmentId =
     find (row_matches tenantId appointmentId) (appointments d)"

text \<open>\<open>result.rows[0]\<close>, which is \<open>undefined\<close> on an empty result.\<close>

definition rows0 :: "'a list \<Rightarrow> 'a option" where
  "rows0 rs = (case rs of [] \<Rightarrow> None | r # _ \<Rightarrow> Some r)"

text \<open>
  \<open>updateAppointment\<close> builds \<open>SET key = value\<close> from the keys of the request body; the
  body is modelled by the columns it may name, each optional.
\<close>

record update_data =
  upd_provider_id :: "uuid option"
  upd_scheduled_start :: "instant option"
  upd_scheduled_end :: "instant option"
  upd_duration_minutes :: "int option"
  upd_status :: "appt_status option"

definition set_columns :: "update_data \<Rightarrow> appointment \<Rightarrow> appointment" where
  "set_columns u a =
     a\<lparr> provider_id := (case upd_provider_id u of None \<Rightarrow> provider_id a | Some v \<Rightarrow> v),
        scheduled_start := (case upd_scheduled_start u of None \<Rightarrow> scheduled_start a | Some v \<Rightarrow> v),
        scheduled_end := (case upd_scheduled_end u of None \<Rightarrow> scheduled_end a | Some v \<Rightarrow> v),
        duration_minutes := (case upd_duration_minutes u of None \<Rightarrow> duration_minutes a | Some v \<Rightarrow> v),
        status := (case upd_status u of None \<Rightarrow> status a | Some v \<Rightarrow> v) \<rparr>"

definition no_valid_fields :: "update_data \<Rightarrow> bool" where
  "no_valid_fields u =
     (upd_provider_id u = None \<and> upd_scheduled_start u = None \<and> upd_scheduled_end u = None \<and>
      upd_duration_minutes u = None \<and> upd_status u = None)"

definition updateAppointment ::
  "db \<Rightarrow> uuid \<Rightarrow> uuid \<Rightarrow> update_data \<Rightarrow> error + (db \<times> appointment option)" where
  "updateAppointment d tenantId appointmentId updateData =
     (if filter (row_matches tenantId appointmentId) (appointments d) = [] then Inl NotFoundError
      else if no_valid_fields updateData then Inl (GenericError ''No valid fields to update'')
      else case update_appointments (appointments d) tenantId appointmentId
                  (set_columns updateData) of
             Inl e \<Rightarrow> Inl e
           | Inr (rows, returned) \<Rightarrow> Inr (d\<lparr>appointments := rows\<rparr>, rows0 returned))"

definition cancelAppointment ::
  "db \<Rightarrow> instant \<Rightarrow> uuid \<Rightarrow> uuid \<Rightarrow> error + (db \<times> appointment)" where
  "cancelAppointment d now tenantId appointmentId =
     (case update_appointments (appointments d) tenantId appointmentId
             (\<lambda>a. a\<lparr>status := Cancelled, cancelled_at := Some now\<rparr>) of
        Inl e \<Rightarrow> Inl e
      | Inr (rows, returned) \<Rightarrow>
          (case returned of
             [] \<Rightarrow> Inl NotFoundError
           | appointment # _ \<Rightarrow> Inr (d\<lparr>appointments := rows\<rparr>, appointment)))"

definition checkinAppointment ::
  "db \<Rightarrow> instant \<Rightarrow> uuid \<Rightarrow> uuid \<Rightarrow> error + (db \<times> appointment)" where
  "checkinAppointment d now tenantId appointmentId =
     (case update_appointments (appointments d) tenantId appointmentId
             (\<lambda>a. a\<lparr>status := Arrived, checked_in_at := Some now\<rparr>) of
        Inl e \<Rightarrow> Inl e
      | Inr (rows, returned) \<Rightarrow>
          (case returned of
             [] \<Rightarrow> Inl NotFoundError
           | appointment # _ \<Rightarrow> Inr (d\<lparr>appointments := rows\<rparr>, appointment)))"

definition rescheduleAppointment ::
  "db \<Rightarrow> uuid \<Rightarrow> uuid \<Rightarrow> instant \<Rightarrow> int \<Rightarrow> error + (db \<times> appointment option)" where
  "rescheduleAppointment d tenantId appointmentId newStartTime duration =
     (case getAppointmentById d tenantId appointmentId of
        None \<Rightarrow> Inl NotFoundError
      | Some appointment \<Rightarrow>
          (let endTime = addMinutes newStartTime duration
           in case checkAppointmentConflicts (appointments d) (provider_id appointment)
                     newStartTime endTime of
                Inl e \<Rightarrow> Inl e
              | Inr _ \<Rightarrow>
                  (case update_appointments (appointments d) tenantId appointmentId
                          (\<lambda>a. a\<lparr>scheduled_start := newStartTime, scheduled_end := endTime,
                                  duration_minutes := duration\<rparr>) of
                     Inl e \<Rightarrow> Inl e
                   | Inr (rows, returned) \<Rightarrow> Inr (d\<lparr>appointments := rows\<rparr>, rows0 returned))))"

subsection \<open>Series\<close>

record member_data =
  md_scheduled_start :: instant
  md_duration_minutes :: int

record series_data =
  sd_patient_id :: uuid
  sd_provider_id :: uuid
  sd_facility_id :: uuid
  sd_appointments :: "member_data list"




subsection \<open>Status workflow\<close>

text \<open>\<open>statusWorkflow\<close> and \<open>isValidStatusTransition\<close> of the appointment model.\<close>

fun statusWorkflow :: "appt_status \<Rightarrow> appt_status list" where
  "statusWorkflow Scheduled = [Confirmed, Cancelled, NoShow]"
| "statusWorkflow Confirmed = [Arrived, Cancelled, NoShow]"
| "statusWorkflow Arrived = [InProgress, NoShow]"
| "statusWorkflow InProgress = [Completed]"
| "statusWorkflow Completed = []"
| "statusWorkflow Cancelled = []"
| "statusWorkflow NoShow = []"

definition isValidStatusTransition :: "appt_status \<Rightarrow> appt_status \<Rightarrow> bool" where
  "isValidStatusTransition currentStatus newStatus =
     (newStatus \<in> set (statusWorkflow currentStatus))"

subsection \<open>The double-booking invariant\<close>

text \<open>
  Two rows clash when they belong to one provider, both are in a status other than
  cancelled and no-show, and their half-open intervals overlap.
\<close>

definition clash :: "appointment \<Rightarrow> appointment \<Rightarrow> bool" where
  "clash a b =
     (provider_id a = provider_id b \<and> live_status (status a) \<and> live_status (status b) \<and>
      scheduled_start a < scheduled_end b \<and> scheduled_start b < scheduled_end a)"

fun no_double_booking :: "appointment list \<Rightarrow> bool" where
  "no_double_booking [] = True"
| "no_double_booking (a # rest) = (\<not> list_ex (clash a) rest \<and> no_double_booking rest)"

subsection \<open>What a reschedule writes\<close>

definition move_to :: "instant \<Rightarrow> int \<Rightarrow> appointment \<Rightarrow> appointment" where
  "move_to newStart duration a =
     a\<lparr>scheduled_start := newStart, scheduled_end := addMinutes newStart duration,
       duration_minutes := duration\<rparr>"

section \<open>Slot finder\<close>

text \<open>
  A row of \<open>provider_availability\<close> joined with its provider (\<open>p.tenant_id\<close>). A \<open>TIME\<close>
  is read as \<open>split(':').map(Number)\<close> reads it: hours and minutes. \<open>slot_duration\<close> may be
  \<open>NULL\<close>, and is positive otherwise (\<open>chk_slot_duration\<close>).
\<close>

record provider_availability =
  pa_provider_id :: uuid
  pa_facility_id :: uuid
  pa_tenant_id :: uuid
  day_of_week :: nat
  start_hour :: nat
  start_minute :: nat
  end_hour :: nat
  end_minute :: nat
  slot_duration :: "nat option"
  is_available :: bool
  effective_from :: instant
  effective_until :: "instant option"

record slot =
  sl_provider_id :: uuid
  sl_facility_id :: uuid
  sl_start_time :: instant
  sl_end_time :: instant
  sl_duration_minutes :: nat

record slot_filters =
  f_providerId :: "uuid option"
  f_facilityId :: "uuid option"
  f_startDate :: instant
  f_endDate :: instant

text \<open>\<open>Date.getDay()\<close>: 0 is Sunday; the epoch was a Thursday.\<close>

definition getDay :: "instant \<Rightarrow> nat" where
  "getDay t = nat ((t div 86400000 + 4) mod 7)"

text \<open>\<open>d.setHours(h, m, 0, 0)\<close> on a copy of \<open>t\<close>.\<close>

definition setHours :: "instant \<Rightarrow> nat \<Rightarrow> nat \<Rightarrow> instant" where
  "setHours t h m = startOfDay t + int h * 3600000 + int m * 60000"

text \<open>\<open>avail.slot_duration || 30\<close>\<close>

definition slotDuration :: "provider_availability \<Rightarrow> nat" where
  "slotDuration avail =
     (case slot_duration avail of None \<Rightarrow> 30 | Some n \<Rightarrow> if n = 0 then 30 else n)"

text \<open>
  \<open>bookedByProvider\<close>: every fetched appointment contributes
  \<open>{start: parseISO(apt.scheduled_start), end: parseISO(apt.scheduled_end)}\<close>, and the
  two columns of a fetched row are \<open>Date\<close> objects.
\<close>

record booking =
  bk_provider_id :: uuid
  bk_start :: "instant option"
  bk_end :: "instant option"

definition bookedByProvider :: "appointment list \<Rightarrow> booking list" where
  "bookedByProvider bookedAppointments =
     map (\<lambda>apt. \<lparr> bk_provider_id = provider_id apt,
                   bk_start = parseISO (pg_timestamp (scheduled_start apt)),
                   bk_end = parseISO (pg_timestamp (scheduled_end apt)) \<rparr>)
         bookedAppointments"

text \<open>
  The inner loop of \<open>calculateAvailableSlots\<close>, \<open>while (slotStart < dayEnd)\<close>;
  \<open>bookedByProvider[avail.provider_id] || []\<close> is the entries of \<open>bookings\<close> of that
  provider; \<open>now\<close> is \<open>new Date()\<close>.
\<close>

function slots_of_day ::
  "provider_availability \<Rightarrow> booking list \<Rightarrow> instant \<Rightarrow> instant \<Rightarrow> instant \<Rightarrow> slot list" where
  "slots_of_day avail bookings now dayEnd slotStart =
     (if slotStart < dayEnd then
        (if \<not> list_ex (\<lambda>b. date_less (Some slotStart) (bk_end b) \<and>
                             date_less (bk_start b)
                               (Some (addMinutes slotStart (int (slotDuration avail)))))
                   (filter (\<lambda>b. bk_provider_id b = pa_provider_id avail) bookings)
            \<and> slotStart > now
         then [\<lparr> sl_provider_id = pa_provider_id avail,
                 sl_facility_id = pa_facility_id avail,
                 sl_start_time = slotStart,
                 sl_end_time = addMinutes slotStart (int (slotDuration avail)),
                 sl_duration_minutes = slotDuration avail \<rparr>]
         else [])
        @ slots_of_day avail bookings now dayEnd (addMinutes slotStart (int (slotDuration avail)))
      else [])"
  by pat_completeness auto
termination
  by (relation "measure (\<lambda>(avail, bookings, now, dayEnd, slotStart). nat (dayEnd - slotStart))")
     (auto simp: addMinutes_def slotDuration_def split: option.splits)

declare slots_of_day.simps [simp del]

text \<open>The outer loop, \<open>while (currentDate <= end)\<close>, one calendar day per round.\<close>

function slots_from ::
  "provider_availability list \<Rightarrow> booking list \<Rightarrow> instant \<Rightarrow> instant \<Rightarrow> instant \<Rightarrow> slot list" where
  "slots_from availability bookings now end currentDate =
     (if currentDate \<le> end then
        concat (map (\<lambda>avail. slots_of_day avail bookings now
                               (setHours currentDate (end_hour avail) (end_minute avail))
                               (setHours currentDate (start_hour avail) (start_minute avail)))
                    (filter (\<lambda>avail. day_of_week avail = getDay currentDate) availability))
        @ slots_from availability bookings now end (addDays currentDate 1)
      else [])"
  by pat_completeness auto
termination
  by (relation "measure (\<lambda>(availability, bookings, now, end, currentDate). nat (end - currentDate + 1))")
     (auto simp: addDays_def)

declare slots_from.simps [simp del]

text \<open>
  \<open>calculateAvailableSlots\<close>: \<open>startDate\<close> and \<open>endDate\<close> are the ISO strings of the
  request. Grouping the fetched appointments comes first; with a \<open>parseISO\<close> that
  throws, the first fetched appointment ends the call.
\<close>

definition calculateAvailableSlots ::
  "bool \<Rightarrow> provider_availability list \<Rightarrow> appointment list \<Rightarrow> instant \<Rightarrow> instant \<Rightarrow> instant \<Rightarrow>
   error + slot list" where
  "calculateAvailableSlots parse_throws availability bookedAppointments startDate endDate now =
     (if parse_throws \<and> bookedAppointments \<noteq> []
        then Inl (GenericError ''parseISO: not a string'')
      else Inr (slots_from availability (bookedByProvider bookedAppointments) now endDate
                  startDate))"

text \<open>
  \<open>findAvailableSlots\<close>. The availability query names \<open>$3\<close> for the facility whether or
  not \<open>$2\<close> is bound, so a facility filter without a provider filter is a bind error.
  \<open>CURRENT_DATE\<close> is the start of the day of \<open>now\<close>. \<open>appointmentType\<close> is not read.
\<close>

definition availability_rows ::
  "provider_availability list \<Rightarrow> uuid \<Rightarrow> slot_filters \<Rightarrow> instant \<Rightarrow> provider_availability list" where
  "availability_rows table tenantId filters now =
     sort_key (\<lambda>pa. (day_of_week pa, start_hour pa, start_minute pa))
       (filter (\<lambda>pa. pa_tenant_id pa = tenantId
                    \<and> (case f_providerId filters of None \<Rightarrow> True | Some p \<Rightarrow> pa_provider_id pa = p)
                    \<and> (case f_facilityId filters of None \<Rightarrow> True | Some f \<Rightarrow> pa_facility_id pa = f)
                    \<and> is_available pa
                    \<and> (case effective_until pa of None \<Rightarrow> True | Some u \<Rightarrow> u \<ge> startOfDay now))
               table)"

definition booked_rows :: "appointment list \<Rightarrow> uuid \<Rightarrow> slot_filters \<Rightarrow> appointment list" where
  "booked_rows rows tenantId filters =
     filter (\<lambda>a. tenant_id a = tenantId
                \<and> live_status (status a)
                \<and> scheduled_start a \<ge> f_startDate filters
                \<and> scheduled_start a \<le> f_endDate filters
                \<and> (case f_providerId filters of None \<Rightarrow> True | Some p \<Rightarrow> provider_id a = p))
            rows"

definition findAvailableSlots ::
  "bool \<Rightarrow> provider_availability list \<Rightarrow> db \<Rightarrow> instant \<Rightarrow> uuid \<Rightarrow> slot_filters \<Rightarrow>
   error + slot list" where
  "findAvailableSlots parse_throws table d now tenantId filters =
     (if f_providerId filters = None \<and> f_facilityId filters \<noteq> None
        then Inl (GenericError ''bind message supplies 2 parameters'')
      else calculateAvailableSlots parse_throws
             (availability_rows table tenantId filters now)
             (booked_rows (appointments d) tenantId filters)
             (f_startDate filters) (f_endDate filters) now)"

section \<open>Notifications\<close>

text \<open>
  The \<open>notifications\<close> table with its checks: \<open>delivery_status\<close> and \<open>priority\<close> are the
  enumerations of \<open>chk_notification_status\<close> and \<open>chk_notification_priority\<close>, the
  priority is stored as text (\<open>VARCHAR(20)\<close>), and \<open>chk_retry_count\<close> bounds \<open>retry_count\<close>.
  The trigger \<open>update_notifications_updated_at\<close> stamps every updated row.
\<close>

datatype delivery_status = Pending | Queued | Delivered | Failed

datatype channel = Sms | Email | Push

datatype priority = Low | Medium | High | Urgent

record notification =
  n_id :: uuid
  n_tenant_id :: uuid
  n_patient_id :: "uuid option"
  notification_type :: string
  priority :: priority
  scheduled_send_time :: instant
  sent_at :: "instant option"
  delivery_status :: delivery_status
  retry_count :: nat
  updated_at :: instant

record preferences =
  quiet_hours_enabled :: bool
  quiet_hours_start :: "nat option"
  quiet_hours_end :: "nat option"
  preferred_channel :: "channel option"

record contact_info =
  phone :: "string option"
  email :: "string option"
  device_token :: "string option"

record patient =
  p_id :: uuid
  patient_contact :: contact_info
  patient_preferences :: preferences

definition chk_retry_count :: "notification \<Rightarrow> bool" where
  "chk_retry_count n = (retry_count n \<le> 3)"

text \<open>
  \<open>UPDATE notifications SET ... WHERE id = $1\<close> at time \<open>now\<close>: the rows with that id are
  rewritten and stamped; the statement fails when a rewritten row breaks the check.
\<close>

definition update_notifications ::
  "notification list \<Rightarrow> uuid \<Rightarrow> (notification \<Rightarrow> notification) \<Rightarrow> instant \<Rightarrow>
   error + notification list" where
  "update_notifications rows notificationId f now =
     (let written = map (\<lambda>n. (f n)\<lparr>updated_at := now\<rparr>)
                        (filter (\<lambda>n. n_id n = notificationId) rows)
      in if list_all chk_retry_count written
         then Inr (map (\<lambda>n. if n_id n = notificationId then (f n)\<lparr>updated_at := now\<rparr> else n)
                       rows)
         else Inl (ConstraintViolation ''chk_retry_count''))"

subsection \<open>Scheduler\<close>

text \<open>The text of a priority, and the byte-wise order in which \<open>ORDER BY\<close> compares texts.\<close>

fun priority_text :: "priority \<Rightarrow> string" where
  "priority_text Low = ''low''"
| "priority_text Medium = ''medium''"
| "priority_text High = ''high''"
| "priority_text Urgent = ''urgent''"

fun text_less :: "string \<Rightarrow> string \<Rightarrow> bool" where
  "text_less [] [] = False"
| "text_less [] (y # ys) = True"
| "text_less (x # xs) [] = False"
| "text_less (x # xs) (y # ys) =
     ((of_char x :: nat) < of_char y \<or> (x = y \<and> text_less xs ys))"

text \<open>\<open>ORDER BY priority DESC, scheduled_send_time ASC\<close>: \<open>a\<close> may stand before \<open>b\<close>.\<close>

definition order_by :: "notification \<Rightarrow> notification \<Rightarrow> bool" where
  "order_by a b =
     (text_less (priority_text (priority b)) (priority_text (priority a))
      \<or> (priority_text (priority a) = priority_text (priority b)
          \<and> scheduled_send_time a \<le> scheduled_send_time b))"

fun insert_sorted :: "('a \<Rightarrow> 'a \<Rightarrow> bool) \<Rightarrow> 'a \<Rightarrow> 'a list \<Rightarrow> 'a list" where
  "insert_sorted le x [] = [x]"
| "insert_sorted le x (y # ys) = (if le x y then x # y # ys else y # insert_sorted le x ys)"

fun sort_by :: "('a \<Rightarrow> 'a \<Rightarrow> bool) \<Rightarrow> 'a list \<Rightarrow> 'a list" where
  "sort_by le [] = []"
| "sort_by le (x # xs) = insert_sorted le x (sort_by le xs)"

definition getPendingNotifications :: "notification list \<Rightarrow> instant \<Rightarrow> notification list" where
  "getPendingNotifications rows now =
     take 1000
       (sort_by order_by
          (filter (\<lambda>n. delivery_status n = Pending
                       \<and> scheduled_send_time n \<le> addMinutes now 5) rows))"

text \<open>
  \<open>getPriorityValue\<close>, the rank the scheduler gives a priority when it publishes to the
  queue.
\<close>

fun getPriorityValue :: "priority \<Rightarrow> nat" where
  "getPriorityValue Low = 3"
| "getPriorityValue Medium = 5"
| "getPriorityValue High = 7"
| "getPriorityValue Urgent = 10"

text \<open>
  \<open>queueNotification\<close>: the row becomes queued and the message is published; when the
  publish fails (\<open>publish_ok\<close> false) the transaction is rolled back, the row is marked
  failed by a statement of its own, and the error is thrown again.
\<close>

definition queueNotification ::
  "notification list \<Rightarrow> instant \<Rightarrow> bool \<Rightarrow> uuid \<Rightarrow> notification list \<times> error option" where
  "queueNotification rows now publish_ok notificationId =
     (case update_notifications rows notificationId (\<lambda>n. n\<lparr>delivery_status := Queued\<rparr>) now of
        Inr rows' \<Rightarrow>
          if publish_ok then (rows', None)
          else (case update_notifications rows notificationId
                       (\<lambda>n. n\<lparr>delivery_status := Failed\<rparr>) now of
                  Inr rows'' \<Rightarrow> (rows'', Some TransportError)
                | Inl _ \<Rightarrow> (rows, Some TransportError))
      | Inl e \<Rightarrow>
          (case update_notifications rows notificationId
                  (\<lambda>n. n\<lparr>delivery_status := Failed\<rparr>) now of
             Inr rows'' \<Rightarrow> (rows'', Some e)
           | Inl _ \<Rightarrow> (rows, Some e)))"

text \<open>The scheduler's handler: every selected notification is queued.\<close>

definition scheduler_run ::
  "notification list \<Rightarrow> instant \<Rightarrow> (uuid \<Rightarrow> bool) \<Rightarrow> notification list" where
  "scheduler_run rows now publish_ok =
     fold (\<lambda>n acc. fst (queueNotification acc now (publish_ok (n_id n)) (n_id n)))
          (getPendingNotifications rows now) rows"

text \<open>
  \<open>retryFailedNotifications\<close>: at most 100 failed rows below three retries and idle for
  30 minutes; each is reset by a statement of its own, an error of which is logged and
  skipped.
\<close>

definition retry_candidates :: "notification list \<Rightarrow> instant \<Rightarrow> notification list" where
  "retry_candidates rows now =
     take 100 (filter (\<lambda>n. delivery_status n = Failed \<and> retry_count n < 3
                          \<and> updated_at n < addMinutes now (- 30)) rows)"

definition retry_one :: "instant \<Rightarrow> notification \<Rightarrow> notification list \<times> nat \<Rightarrow> notification list \<times> nat" where
  "retry_one now notification acc =
     (case update_notifications (fst acc) (n_id notification)
             (\<lambda>n. n\<lparr>delivery_status := Pending, retry_count := retry_count n + 1,
                     scheduled_send_time := now\<rparr>) now of
        Inl _ \<Rightarrow> acc
      | Inr rows' \<Rightarrow> (rows', snd acc + 1))"

definition retryFailedNotifications :: "notification list \<Rightarrow> instant \<Rightarrow> notification list \<times> nat" where
  "retryFailedNotifications rows now = fold (retry_one now) (retry_candidates rows now) (rows, 0)"

subsection \<open>Dispatcher\<close>

text \<open>\<open>new Date().getHours()\<close>\<close>

definition getHours :: "instant \<Rightarrow> nat" where
  "getHours t = nat ((t mod 86400000) div 3600000)"

text \<open>\<open>x || d\<close> on an optional number: \<open>undefined\<close> and \<open>0\<close> give the default.\<close>

definition or_default :: "nat option \<Rightarrow> nat \<Rightarrow> nat" where
  "or_default x d = (case x of None \<Rightarrow> d | Some v \<Rightarrow> if v = 0 then d else v)"

definition isQuietHours :: "preferences \<Rightarrow> nat \<Rightarrow> bool" where
  "isQuietHours preferences currentHour =
     (if \<not> quiet_hours_enabled preferences then False
      else let quietStart = or_default (quiet_hours_start preferences) 22;
               quietEnd = or_default (quiet_hours_end preferences) 8
           in if quietStart < quietEnd
              then currentHour \<ge> quietStart \<or> currentHour < quietEnd
              else currentHour \<ge> quietStart \<and> currentHour < quietEnd)"

text \<open>A contact field is present when it is a non-empty string.\<close>

definition present :: "string option \<Rightarrow> bool" where
  "present x = (case x of None \<Rightarrow> False | Some s \<Rightarrow> s \<noteq> [])"

definition selectChannel :: "preferences \<Rightarrow> contact_info \<Rightarrow> channel option" where
  "selectChannel preferences contactInfo =
     (let preferredChannel = (case preferred_channel preferences of None \<Rightarrow> Sms | Some c \<Rightarrow> c)
      in if preferredChannel = Sms \<and> present (phone contactInfo) then Some Sms
         else if preferredChannel = Email \<and> present (email contactInfo) then Some Email
         else if preferredChannel = Push \<and> present (device_token contactInfo) then Some Push
         else if present (phone contactInfo) then Some Sms
         else if present (email contactInfo) then Some Email
         else if present (device_token contactInfo) then Some Push
         else None)"

text \<open>The keys of \<open>loadNotificationTemplates\<close>; every template has an sms and an email part.\<close>

definition notificationTemplates :: "string list" where
  "notificationTemplates =
     [''appointment_confirmation'', ''appointment_reminder'', ''appointment_cancelled'',
      ''appointment_rescheduled'', ''medication_reminder'', ''medication_refill_reminder'',
      ''medication_discontinued'', ''medication_adherence_low'']"

text \<open>
  The row \<open>SELECT n.*, ... FROM notifications n JOIN patients p ON n.patient_id = p.id
  WHERE n.id = $1\<close> returns first.
\<close>

definition notification_with_patient ::
  "notification list \<Rightarrow> patient list \<Rightarrow> uuid \<Rightarrow> (notification \<times> patient) option" where
  "notification_with_patient rows patients notificationId =
     (case find (\<lambda>n. n_id n = notificationId
                     \<and> (case n_patient_id n of None \<Rightarrow> False
                         | Some pid \<Rightarrow> list_ex (\<lambda>p. p_id p = pid) patients)) rows of
        None \<Rightarrow> None
      | Some n \<Rightarrow>
          (case find (\<lambda>p. Some (p_id p) = n_patient_id n) patients of
             None \<Rightarrow> None
           | Some p \<Rightarrow> Some (n, p)))"

text \<open>
  What one call of \<open>processNotification\<close> leaves behind: the table, the channel whose
  transport was invoked (if any), and the error thrown (if any).
\<close>

record process_result =
  pr_table :: "notification list"
  pr_sent :: "channel option"
  pr_thrown :: "error option"

text \<open>
  \<open>processNotification\<close> at time \<open>now\<close>. \<open>transport_ok\<close> tells whether the SMS or e-mail
  transport accepts the message; the push transport is a placeholder that never throws.
  A statement that fails inside the transaction ends in the outer \<open>catch\<close>: \<open>ROLLBACK\<close>,
  the table as it was, the error thrown.
\<close>

definition processNotification ::
  "notification list \<Rightarrow> patient list \<Rightarrow> instant \<Rightarrow> bool \<Rightarrow> uuid \<Rightarrow> process_result" where
  "processNotification rows patients now transport_ok notificationId =
     (case notification_with_patient rows patients notificationId of
        None \<Rightarrow> \<lparr>pr_table = rows, pr_sent = None, pr_thrown = Some NotFoundError\<rparr>
      | Some (notification, p) \<Rightarrow>
          if delivery_status notification = Delivered
            then \<lparr>pr_table = rows, pr_sent = None, pr_thrown = None\<rparr>
          else if isQuietHours (patient_preferences p) (getHours now) then
            (case update_notifications rows notificationId
                    (\<lambda>n. n\<lparr>scheduled_send_time := addHours (scheduled_send_time n) 2,
                            delivery_status := Pending\<rparr>) now of
               Inl e \<Rightarrow> \<lparr>pr_table = rows, pr_sent = None, pr_thrown = Some e\<rparr>
             | Inr rows' \<Rightarrow> \<lparr>pr_table = rows', pr_sent = None, pr_thrown = None\<rparr>)
          else
            (case selectChannel (patient_preferences p) (patient_contact p) of
               None \<Rightarrow>
                 (case update_notifications rows notificationId
                         (\<lambda>n. n\<lparr>delivery_status := Failed\<rparr>) now of
                    Inl e \<Rightarrow> \<lparr>pr_table = rows, pr_sent = None, pr_thrown = Some e\<rparr>
                  | Inr rows' \<Rightarrow> \<lparr>pr_table = rows', pr_sent = None, pr_thrown = None\<rparr>)
             | Some channel \<Rightarrow>
                 if notification_type notification \<notin> set notificationTemplates
                   then \<lparr>pr_table = rows, pr_sent = None,
                          pr_thrown = Some (GenericError ''No template found'')\<rparr>
                 else if channel = Push \<or> transport_ok then
                   (case update_notifications rows notificationId
                           (\<lambda>n. n\<lparr>delivery_status := Delivered, sent_at := Some now\<rparr>) now of
                      Inl e \<Rightarrow> \<lparr>pr_table = rows, pr_sent = Some channel, pr_thrown = Some e\<rparr>
                    | Inr rows' \<Rightarrow>
                        \<lparr>pr_table = rows', pr_sent = Some channel, pr_thrown = None\<rparr>)
                 else
                   (let newRetryCount = retry_count notification + 1
                    in case (if newRetryCount \<ge> 3
                             then update_notifications rows notificationId
                                    (\<lambda>n. n\<lparr>delivery_status := Failed,
                                            retry_count := newRetryCount\<rparr>) now
                             else update_notifications rows notificationId
                                    (\<lambda>n. n\<lparr>delivery_status := Pending,
                                            retry_count := newRetryCount,
                                            scheduled_send_time := addMinutes now 30\<rparr>) now) of
                         Inl e \<Rightarrow>
                           \<lparr>pr_table = rows, pr_sent = Some channel, pr_thrown = Some e\<rparr>
                       | Inr rows' \<Rightarrow>
                           \<lparr>pr_table = rows', pr_sent = Some channel,
                             pr_thrown = Some TransportError\<rparr>)))"

subsection \<open>Queue consumer\<close>

text \<open>
  \<open>consumeFromQueue\<close>: a message whose handler throws is put back on the queue when
  \<open>(msg.properties.headers?.['x-retry-count'] || 0) + 1 < 3\<close> and dead-lettered
  otherwise. \<open>publishToQueue\<close> sets no such header. The handler of the notification
  processor calls \<open>processNotification\<close> and throws its error again.
\<close>

definition consumer_requeues :: "nat option \<Rightarrow> bool" where
  "consumer_requeues x_retry_count = (or_default x_retry_count 0 + 1 < 3)"

definition consume ::
  "notification list \<Rightarrow> patient list \<Rightarrow> instant \<Rightarrow> bool \<Rightarrow> uuid \<Rightarrow> process_result \<times> bool" where
  "consume rows patients now transport_ok notificationId =
     (let r = processNotification rows patients now transport_ok notificationId
      in (r, pr_thrown r \<noteq> None \<and> consumer_requeues None))"

text \<open>
  The deliveries of one message, each at its time and with its transport outcome, for
  as long as the message is put back: the table left behind and the transport invoked
  at each delivery.
\<close>

fun redeliver ::
  "patient list \<Rightarrow> uuid \<Rightarrow> (instant \<times> bool) list \<Rightarrow> notification list \<Rightarrow>
   notification list \<times> channel option list" where
  "redeliver patients notificationId [] rows = (rows, [])"
| "redeliver patients notificationId ((now, transport_ok) # rest) rows =
     (case consume rows patients now transport_ok notificationId of
        (r, requeued) \<Rightarrow>
          if requeued
          then (case redeliver patients notificationId rest (pr_table r) of
                  (rows', sent) \<Rightarrow> (rows', pr_sent r # sent))
          else (pr_table r, [pr_sent r]))"

subsection \<open>Runs of the pipeline\<close>

text \<open>
  A step of the pipeline on the table: a run of the scheduler, a call of the dispatcher
  on some notification, or a retry sweep, each at its own time.
\<close>

datatype step =
    Schedule instant "uuid \<Rightarrow> bool"
  | Dispatch instant bool uuid
  | Sweep instant

fun do_step :: "patient list \<Rightarrow> step \<Rightarrow> notification list \<Rightarrow> notification list" where
  "do_step patients (Schedule now publish_ok) rows = scheduler_run rows now publish_ok"
| "do_step patients (Dispatch now transport_ok notificationId) rows =
     pr_table (processNotification rows patients now transport_ok notificationId)"
| "do_step patients (Sweep now) rows = fst (retryFailedNotifications rows now)"

definition run_steps :: "patient list \<Rightarrow> step list \<Rightarrow> notification list \<Rightarrow> notification list" where
  "run_steps patients steps rows = fold (do_step patients) steps rows"

subsection \<open>What a failed attempt writes\<close>

definition after_failure :: "instant \<Rightarrow> nat \<Rightarrow> notification \<Rightarrow> notification" where
  "after_failure now newRetryCount n =
     (if newRetryCount \<ge> 3
      then n\<lparr>delivery_status := Failed, retry_count := newRetryCount, updated_at := now\<rparr>
      else n\<lparr>delivery_status := Pending, retry_count := newRetryCount,
             scheduled_send_time := addMinutes now 30, updated_at := now\<rparr>)"

definition retry_bounded :: "notification list \<Rightarrow> bool" where
  "retry_bounded rows = list_all chk_retry_count rows"

section \<open>Medication reminders\<close>

text \<open>
  The columns of a \<open>medications\<close> row that \<open>queueMedicationReminders\<close> reads.
  \<open>schedule_details.times\<close>, when it is an array, holds the times already split into
  hour and minute. A date is the instant of its midnight, and reaches the function as
  an ISO string or as a \<open>Date\<close> object.
\<close>

record medication =
  m_id :: uuid
  m_patient_id :: uuid
  frequency :: string
  schedule_times :: "(nat \<times> nat) list option"
  start_date :: js_time
  end_date :: "js_time option"
  is_ongoing :: bool
  refills_remaining :: nat
  days_supply :: "nat option"

datatype message_type = Medication_reminder | Medication_refill_reminder

record queue_message =
  msg_type :: message_type
  medicationId :: uuid
  patientId :: uuid
  scheduledFor :: instant
  msg_priority :: nat

text \<open>\<open>String.prototype.toLowerCase\<close> on ASCII letters, and \<open>String.prototype.includes\<close>.\<close>

definition toLowerCase :: "string \<Rightarrow> string" where
  "toLowerCase s =
     map (\<lambda>c. if 65 \<le> (of_char c :: nat) \<and> (of_char c :: nat) \<le> 90
               then char_of ((of_char c :: nat) + 32) else c) s"

fun starts_with :: "string \<Rightarrow> string \<Rightarrow> bool" where
  "starts_with s [] = True"
| "starts_with [] (p # ps) = False"
| "starts_with (c # cs) (p # ps) = (c = p \<and> starts_with cs ps)"

fun str_includes :: "string \<Rightarrow> string \<Rightarrow> bool" where
  "str_includes [] pat = (pat = [])"
| "str_includes (c # cs) pat = (starts_with (c # cs) pat \<or> str_includes cs pat)"

definition parseFrequencyToReminderTimes ::
  "string \<Rightarrow> (nat \<times> nat) list option \<Rightarrow> (nat \<times> nat) list" where
  "parseFrequencyToReminderTimes freq scheduleTimes =
     (let frequencyLower = toLowerCase freq
      in case scheduleTimes of
           Some ts \<Rightarrow> ts
         | None \<Rightarrow>
             if str_includes frequencyLower ''once'' \<or> str_includes frequencyLower ''1 time''
               then [(9, 0)]
             else if str_includes frequencyLower ''twice'' \<or> str_includes frequencyLower ''2 time''
               then [(9, 0), (21, 0)]
             else if str_includes frequencyLower ''three'' \<or> str_includes frequencyLower ''3 time''
               then [(9, 0), (15, 0), (21, 0)]
             else if str_includes frequencyLower ''four'' \<or> str_includes frequencyLower ''4 time''
               then [(9, 0), (13, 0), (17, 0), (21, 0)]
             else if str_includes frequencyLower ''every 8 hour''
               then [(8, 0), (16, 0), (0, 0)]
             else if str_includes frequencyLower ''every 6 hour''
               then [(8, 0), (14, 0), (20, 0), (2, 0)]
             else if str_includes frequencyLower ''every 4 hour''
               then [(8, 0), (12, 0), (16, 0), (20, 0), (0, 0), (4, 0)]
             else [(9, 0)])"

text \<open>
  The horizon \<open>endDate\<close>: the parsed \<open>end_date\<close>, else the parsed \<open>start_date\<close> plus a
  non-zero \<open>days_supply\<close>, else plus 90 days for an ongoing medication, else plus 30
  days. \<open>addDays\<close> of \<open>Invalid Date\<close> is \<open>Invalid Date\<close>.
\<close>

definition reminder_end_date :: "medication \<Rightarrow> instant option" where
  "reminder_end_date med =
     (case end_date med of
        Some e \<Rightarrow> parseISO e
      | None \<Rightarrow>
          (case parseISO (start_date med) of
             None \<Rightarrow> None
           | Some startDate \<Rightarrow>
               Some (case days_supply med of
                       Some (Suc k) \<Rightarrow> addDays startDate (int (Suc k))
                     | _ \<Rightarrow> if is_ongoing med then addDays startDate 90
                            else addDays startDate 30)))"

text \<open>
  The body of the \<open>for\<close> loop over \<open>reminderTimes\<close> on one day: the reminders of that
  day that lie after \<open>now\<close>.
\<close>

definition reminders_of_day ::
  "medication \<Rightarrow> (nat \<times> nat) list \<Rightarrow> instant \<Rightarrow> instant \<Rightarrow> queue_message list" where
  "reminders_of_day med reminderTimes now currentDate =
     map (\<lambda>t. \<lparr> msg_type = Medication_reminder, medicationId = m_id med,
                 patientId = m_patient_id med, scheduledFor = t, msg_priority = 6 \<rparr>)
         (filter (\<lambda>t. t > now)
            (map (\<lambda>(h, m). addMinutes (addHours currentDate (int h)) (int m)) reminderTimes))"

text \<open>
  \<open>while (currentDate <= endDate && reminderCount < maxReminders)\<close>, with
  \<open>maxReminders = 500\<close>: the bound is tested once per day, before the day's reminders
  are added.
\<close>

function reminders_from ::
  "medication \<Rightarrow> (nat \<times> nat) list \<Rightarrow> instant \<Rightarrow> instant \<Rightarrow> instant \<Rightarrow> nat \<Rightarrow> queue_message list" where
  "reminders_from med reminderTimes now endDate currentDate reminderCount =
     (if currentDate \<le> endDate \<and> reminderCount < 500 then
        reminders_of_day med reminderTimes now currentDate
        @ reminders_from med reminderTimes now endDate (addDays currentDate 1)
            (reminderCount + length (reminders_of_day med reminderTimes now currentDate))
      else [])"
  by pat_completeness auto
termination
  by (relation "measure (\<lambda>(med, reminderTimes, now, endDate, currentDate, reminderCount).
                  nat (endDate - currentDate + 1))")
     (auto simp: addDays_def)

declare reminders_from.simps [simp del]

text \<open>
  The refill reminder, seven days before the supply runs out, when that day lies after
  \<open>now\<close>.
\<close>

definition refill_reminder :: "medication \<Rightarrow> instant \<Rightarrow> instant \<Rightarrow> queue_message list" where
  "refill_reminder med startDate now =
     (case days_supply med of
        Some (Suc k) \<Rightarrow>
          if refills_remaining med > 0
             \<and> addDays startDate (int (Suc k) - 7) > now
          then [\<lparr> msg_type = Medication_refill_reminder, medicationId = m_id med,
                  patientId = m_patient_id med,
                  scheduledFor = addDays startDate (int (Suc k) - 7),
                  msg_priority = 7 \<rparr>]
          else []
      | _ \<Rightarrow> [])"

text \<open>
  \<open>queueMedicationReminders\<close>: the messages published, in order (every publish is
  taken to succeed): the reminders, then the refill reminder when it applies. The body
  is one \<open>try\<close> block whose \<open>catch\<close> logs and returns.
  When \<open>start_date\<close> does not parse, nothing is published: a throwing \<open>parseISO\<close> ends
  the block at its first statement; otherwise \<open>startDate\<close> is \<open>Invalid Date\<close>, the loop
  condition \<open>currentDate <= endDate\<close> is false and so is the test of the refill day.
  When only \<open>end_date\<close> does not parse, a throwing \<open>parseISO\<close> ends the block, and
  otherwise the loop does not run and the refill reminder is still considered.
\<close>

definition queueMedicationReminders :: "bool \<Rightarrow> medication \<Rightarrow> instant \<Rightarrow> queue_message list" where
  "queueMedicationReminders parse_throws med now =
     (case parseISO (start_date med) of
        None \<Rightarrow> []
      | Some startDate \<Rightarrow>
          (case reminder_end_date med of
             None \<Rightarrow> if parse_throws then [] else refill_reminder med startDate now
           | Some endDate \<Rightarrow>
               reminders_from med
                 (parseFrequencyToReminderTimes (frequency med) (schedule_times med))
                 now endDate (startOfDay startDate) 0
               @ refill_reminder med startDate now))"

text \<open>
  \<open>createMedication\<close>: the dates of the request are compared, the row is inserted and
  committed, and the row that \<open>INSERT ... RETURNING *\<close> gave back, with its \<open>DATE\<close>
  columns as \<open>Date\<close> objects, is handed to \<open>queueMedicationReminders\<close>, its only
  caller. The result is the row and the messages published.
\<close>

record medication_data =
  mr_frequency :: string
  mr_schedule_times :: "(nat \<times> nat) list option"
  mr_start_date :: instant
  mr_end_date :: "instant option"
  mr_is_ongoing :: bool
  mr_refills_remaining :: nat
  mr_days_supply :: "nat option"

definition createMedication ::
  "bool \<Rightarrow> instant \<Rightarrow> uuid \<Rightarrow> medication_data \<Rightarrow> uuid \<Rightarrow>
   error + (medication \<times> queue_message list)" where
  "createMedication parse_throws now patient medicationData newId =
     (if (case mr_end_date medicationData of
            None \<Rightarrow> False
          | Some e \<Rightarrow> e \<le> mr_start_date medicationData)
        then Inl (GenericError ''End date must be after start date'')
      else
        (let medication =
               \<lparr> m_id = newId, m_patient_id = patient,
                 frequency = mr_frequency medicationData,
                 schedule_times = mr_schedule_times medicationData,
                 start_date = pg_timestamp (mr_start_date medicationData),
                 end_date = map_option pg_timestamp (mr_end_date medicationData),
                 is_ongoing = mr_is_ongoing medicationData,
                 refills_remaining = mr_refills_remaining medicationData,
                 days_supply = (case mr_days_supply medicationData of
                                  Some (Suc k) \<Rightarrow> Some (Suc k) | _ \<Rightarrow> None) \<rparr>
         in Inr (medication, queueMedicationReminders parse_throws medication now)))"

section \<open>Example data\<close>

text \<open>
  Provider 1 is booked on Monday 2025-12-15 from 10:00 to 10:30 UTC
  (\<open>1765792800000\<close> to \<open>1765794600000\<close>).
\<close>

definition booked :: appointment where
  "booked = \<lparr> appt_id = 1, tenant_id = 1, patient_id = 1, provider_id = 1, facility_id = 1,
     series_id = None, scheduled_start = 1765792800000, scheduled_end = 1765794600000,
     duration_minutes = 30, status = Scheduled, checked_in_at = None, cancelled_at = None \<rparr>"

definition db0 :: db where
  "db0 = \<lparr> appointments = [booked], series = [] \<rparr>"


definition single_series :: series_data where
  "single_series = \<lparr> sd_patient_id = 2, sd_provider_id = 1, sd_facility_id = 1,
     sd_appointments = [\<lparr>md_scheduled_start = 1765793700000, md_duration_minutes = 30\<rparr>] \<rparr>"

text \<open>
  Provider 1 works on Mondays from 10:00 to 11:00 in 30-minute slots, since 2025-01-01.
  The request asks for Monday 2025-12-15 alone, on 2025-12-01.
\<close>

definition monday_rule :: provider_availability where
  "monday_rule = \<lparr> pa_provider_id = 1, pa_facility_id = 1, pa_tenant_id = 1, day_of_week = 1,
     start_hour = 10, start_minute = 0, end_hour = 11, end_minute = 0,
     slot_duration = Some 30, is_available = True,
     effective_from = 1735689600000, effective_until = None \<rparr>"

definition monday_request :: slot_filters where
  "monday_request = \<lparr> f_providerId = Some 1, f_facilityId = None,
     f_startDate = 1765756800000, f_endDate = 1765756800000 \<rparr>"

text \<open>
  Patient 7 has a phone number and prefers nothing in particular; with quiet hours from
  22 to 8 in \<open>night_patient\<close>. The reminder is due on 2025-12-15 at 23:00 UTC
  (\<open>1765839600000\<close>).
\<close>

definition plain_patient :: patient where
  "plain_patient = \<lparr> p_id = 7,
     patient_contact = \<lparr> phone = Some ''+15550100'', email = None, device_token = None \<rparr>,
     patient_preferences = \<lparr> quiet_hours_enabled = False, quiet_hours_start = None,
        quiet_hours_end = None, preferred_channel = None \<rparr> \<rparr>"

definition night_patient :: patient where
  "night_patient = \<lparr> p_id = 7,
     patient_contact = \<lparr> phone = Some ''+15550100'', email = None, device_token = None \<rparr>,
     patient_preferences = \<lparr> quiet_hours_enabled = True, quiet_hours_start = Some 22,
        quiet_hours_end = Some 8, preferred_channel = None \<rparr> \<rparr>"

definition reminder :: notification where
  "reminder = \<lparr> n_id = 1, n_tenant_id = 1, n_patient_id = Some 7,
     notification_type = ''appointment_reminder'', priority = Medium,
     scheduled_send_time = 1765839600000, sent_at = None, delivery_status = Pending,
     retry_count = 0, updated_at = 1765839600000 \<rparr>"

text \<open>
  Two failed attempts, a failed publish, a retry sweep and a last scheduling, each
  half an hour or more after the one before.
\<close>

definition retry_history :: "step list" where
  "retry_history =
     [Schedule 1765839600000 (\<lambda>_. True),
      Dispatch 1765839600000 False 1,
      Schedule 1765841400000 (\<lambda>_. True),
      Dispatch 1765841400000 False 1,
      Schedule 1765843200000 (\<lambda>_. False),
      Sweep 1765845060000,
      Schedule 1765845060000 (\<lambda>_. True)]"

text \<open>
  An ongoing medication taken every 4 hours from 2025-12-15, requested on 2025-12-01;
  \<open>ongoing_medication\<close> carries the same dates as ISO strings.
\<close>

definition ongoing_request :: medication_data where
  "ongoing_request = \<lparr> mr_frequency = ''Every 4 hours'', mr_schedule_times = None,
     mr_start_date = 1765756800000, mr_end_date = None, mr_is_ongoing = True,
     mr_refills_remaining = 0, mr_days_supply = None \<rparr>"

definition ongoing_medication :: medication where
  "ongoing_medication = \<lparr> m_id = 1, m_patient_id = 7, frequency = ''Every 4 hours'',
     schedule_times = None, start_date = IsoString 1765756800000, end_date = None,
     is_ongoing = True, refills_remaining = 0, days_supply = None \<rparr>"

text \<open>
  Provider 1 has a second appointment on 2025-12-15, from 11:00 to 11:30; the request
  moves it to 10:15 until 10:45.
\<close>

definition second_booking :: appointment where
  "second_booking = \<lparr> appt_id = 2, tenant_id = 1, patient_id = 2, provider_id = 1,
     facility_id = 1, series_id = None, scheduled_start = 1765796400000,
     scheduled_end = 1765798200000, duration_minutes = 30, status = Scheduled,
     checked_in_at = None, cancelled_at = None \<rparr>"

definition db1 :: db where
  "db1 = \<lparr> appointments = [booked, second_booking], series = [] \<rparr>"

definition move_request :: update_data where
  "move_request = \<lparr> upd_provider_id = None, upd_scheduled_start = Some 1765793700000,
     upd_scheduled_end = Some 1765795500000, upd_duration_minutes = None,
     upd_status = None \<rparr>"

section \<open>Conflict checker: results\<close>

lemma is_conflict_check:
  "is_conflict (checkAppointmentConflicts rows p s e) = (conflict_rows rows p s e \<noteq> [])"
  by (simp add: is_conflict_def checkAppointmentConflicts_def split: list.splits)

lemma check_ok_iff:
  "(checkAppointmentConflicts rows p s e = Inr ()) = (conflict_rows rows p s e = [])"
  by (simp add: checkAppointmentConflicts_def split: list.splits)

lemma sql_overlap_iff:
  assumes "s < e" and "scheduled_start a < scheduled_end a"
  shows "((scheduled_start a \<le> s \<and> scheduled_end a > s)
          \<or> (scheduled_start a < e \<and> scheduled_end a \<ge> e)
          \<or> (scheduled_start a \<ge> s \<and> scheduled_end a \<le> e))
         = overlaps_interval a s e"
  using assms unfolding overlaps_interval_def by linarith

lemma conflict_rows_nonempty_iff:
  assumes "s < e" and "list_all chk_appointment_times rows"
  shows "(conflict_rows rows p s e \<noteq> []) =
         list_ex (\<lambda>a. provider_id a = p \<and> live_status (status a) \<and> overlaps_interval a s e) rows"
proof -
  have "\<And>a. a \<in> set rows \<Longrightarrow> scheduled_start a < scheduled_end a"
    using assms(2) by (simp add: list_all_iff chk_appointment_times_def)
  then have "\<And>a. a \<in> set rows \<Longrightarrow>
      ((scheduled_start a \<le> s \<and> scheduled_end a > s)
        \<or> (scheduled_start a < e \<and> scheduled_end a \<ge> e)
        \<or> (scheduled_start a \<ge> s \<and> scheduled_end a \<le> e)) = overlaps_interval a s e"
    using sql_overlap_iff [OF assms(1)] by blast
  then show ?thesis
    unfolding conflict_rows_def filter_empty_conv list_ex_iff by blast
qed

text \<open>
  C2. For a proposed interval with \<open>proposedStart < proposedEnd\<close> and stored rows that
  satisfy \<open>scheduled_end > scheduled_start\<close>, the conflict check raises \<open>ConflictError\<close>
  exactly when some row of the provider, in a status other than cancelled and no-show,
  has \<open>existingStart < proposedEnd\<close> and \<open>existingEnd > proposedStart\<close>. In particular,
  when every such row ends at or before the proposed start or starts at or after the
  proposed end (back-to-back intervals), the check passes.
\<close>

theorem conflict_check_half_open:
  assumes "proposedStart < proposedEnd"
    and "\<forall>a \<in> set rows. scheduled_end a > scheduled_start a"
  shows "(is_conflict (checkAppointmentConflicts rows providerId proposedStart proposedEnd)
           = (\<exists>a \<in> set rows. provider_id a = providerId \<and> live_status (status a) \<and>
                scheduled_start a < proposedEnd \<and> scheduled_end a > proposedStart))
       \<and> ((\<forall>a \<in> set rows. provider_id a = providerId \<and> live_status (status a) \<longrightarrow>
              scheduled_end a \<le> proposedStart \<or> proposedEnd \<le> scheduled_start a)
            \<longrightarrow> checkAppointmentConflicts rows providerId proposedStart proposedEnd = Inr ())"
proof (intro conjI impI)
  have ok: "list_all chk_appointment_times rows"
    using assms(2) by (simp add: list_all_iff chk_appointment_times_def)
  show iff: "is_conflict (checkAppointmentConflicts rows providerId proposedStart proposedEnd)
           = (\<exists>a \<in> set rows. provider_id a = providerId \<and> live_status (status a) \<and>
                scheduled_start a < proposedEnd \<and> scheduled_end a > proposedStart)"
    unfolding is_conflict_check conflict_rows_nonempty_iff [OF assms(1) ok]
    by (simp add: list_ex_iff overlaps_interval_def)
  assume apart: "\<forall>a \<in> set rows. provider_id a = providerId \<and> live_status (status a) \<longrightarrow>
            scheduled_end a \<le> proposedStart \<or> proposedEnd \<le> scheduled_start a"
  have "\<not> (\<exists>a \<in> set rows. provider_id a = providerId \<and> live_status (status a) \<and>
                scheduled_start a < proposedEnd \<and> scheduled_end a > proposedStart)"
  proof
    assume "\<exists>a \<in> set rows. provider_id a = providerId \<and> live_status (status a) \<and>
                scheduled_start a < proposedEnd \<and> scheduled_end a > proposedStart"
    then obtain a where a: "a \<in> set rows" "provider_id a = providerId" "live_status (status a)"
      "scheduled_start a < proposedEnd" "scheduled_end a > proposedStart" by blast
    from apart a(1,2,3) have "scheduled_end a \<le> proposedStart \<or> proposedEnd \<le> scheduled_start a"
      by blast
    with a(4,5) show False by linarith
  qed
  with iff have "conflict_rows rows providerId proposedStart proposedEnd = []"
    unfolding is_conflict_check by blast
  then show "checkAppointmentConflicts rows providerId proposedStart proposedEnd = Inr ()"
    by (simp add: check_ok_iff)
qed


lemma conflict_iff_overlap:
  assumes "s < e" and "\<forall>a \<in> set rows. scheduled_end a > scheduled_start a"
  shows "is_conflict (checkAppointmentConflicts rows p s e)
           = (\<exists>a \<in> set rows. provider_id a = p \<and> live_status (status a) \<and>
                scheduled_start a < e \<and> scheduled_end a > s)"
proof -
  have ok: "list_all chk_appointment_times rows"
    using assms(2) by (simp add: list_all_iff chk_appointment_times_def)
  show ?thesis
    unfolding is_conflict_check conflict_rows_nonempty_iff [OF assms(1) ok]
    by (simp add: list_ex_iff overlaps_interval_def)
qed

text \<open>
  The statement at the booked appointment: a proposal from 10:30 to 11:00 starts where
  the booking ends and passes the check.
\<close>

theorem conflict_check_half_open_witness:
  "(1765794600000 :: int) < 1765796400000
   \<and> scheduled_end booked > scheduled_start booked
   \<and> \<not> is_conflict (checkAppointmentConflicts [booked] 1 1765794600000 1765796400000)
   \<and> checkAppointmentConflicts [booked] 1 1765794600000 1765796400000 = Inr ()"
  using conflict_check_half_open [of 1765794600000 1765796400000 "[booked]" 1]
  by (simp add: booked_def live_status_def is_conflict_def)

text \<open>
  Two back-to-back bookings of provider 1, 10:00 to 10:30 and 10:30 to 11:00: neither
  is refused by the conflict check, and both rows are committed.
\<close>

lemma back_to_back_bookable:
  "map scheduled_start
     (appointments (fst (createAppointment
        (fst (createAppointment \<lparr>appointments = [], series = []\<rparr> 0 1
                \<lparr> ad_patient_id = 1, ad_provider_id = 1, ad_facility_id = 1,
                  ad_scheduled_start = 1765792800000, ad_duration_minutes = 30 \<rparr> 1))
        0 1
        \<lparr> ad_patient_id = 2, ad_provider_id = 1, ad_facility_id = 1,
          ad_scheduled_start = 1765794600000, ad_duration_minutes = 30 \<rparr> 2)))
   = [1765792800000, 1765794600000]"
  by (simp add: createAppointment_def checkAppointmentConflicts_def conflict_rows_def
      insert_appointment_def row_constraints_def chk_appointment_times_def
      idx_provider_time_violation_def live_status_def addMinutes_def Let_def
      queueAppointmentNotifications_def pg_timestamp_def)

section \<open>Appointment lifecycle: results\<close>

lemma first_error_ok_iff:
  "(first_error rs = Inr ()) = (\<forall>r \<in> set rs. r = Inr ())"
  by (induction rs rule: first_error.induct) auto

lemma find_filter_Cons:
  "find P xs = Some a \<Longrightarrow> \<exists>rest. filter P xs = a # rest"
  by (induction xs) (auto split: if_splits)

lemma find_Some_mem: "find P xs = Some a \<Longrightarrow> a \<in> set xs \<and> P a"
  by (induction xs) (auto split: if_splits)

lemma filter_map_matches:
  assumes "\<And>b. tenant_id (f b) = tenant_id b \<and> appt_id (f b) = appt_id b"
  shows "filter (row_matches t i) (map (\<lambda>a. if row_matches t i a then f a else a) rows)
         = map f (filter (row_matches t i) rows)"
  using assms by (induction rows) (auto simp: row_matches_def)

text \<open>
  \<open>queueAppointmentNotifications\<close> throws on every row.
\<close>

lemma queueAppointmentNotifications_throws:
  "queueAppointmentNotifications a now = Inl (GenericError ''Invalid time value'')"
  by (simp add: queueAppointmentNotifications_def pg_timestamp_def)

text \<open>
  The path through \<open>createAppointment\<close> keeps the table free of double bookings,
  whether the call returns or throws.
\<close>

lemma no_double_booking_append:
  "no_double_booking (rows @ [a]) = (no_double_booking rows \<and> \<not> list_ex (\<lambda>b. clash b a) rows)"
  by (induction rows) auto

lemma createAppointment_table:
  "appointments (fst (createAppointment d now tenantId appointmentData appointmentId))
     = appointments d
   \<or> (\<exists>a. appointments (fst (createAppointment d now tenantId appointmentData appointmentId))
              = appointments d @ [a]
          \<and> provider_id a = ad_provider_id appointmentData
          \<and> scheduled_start a = ad_scheduled_start appointmentData
          \<and> scheduled_end a = addMinutes (ad_scheduled_start appointmentData)
                                 (ad_duration_minutes appointmentData)
          \<and> scheduled_start a < scheduled_end a
          \<and> checkAppointmentConflicts (appointments d) (ad_provider_id appointmentData)
               (ad_scheduled_start appointmentData)
               (addMinutes (ad_scheduled_start appointmentData)
                  (ad_duration_minutes appointmentData)) = Inr ())"
  by (auto simp: createAppointment_def Let_def insert_appointment_def row_constraints_def
        chk_appointment_times_def split: sum.splits if_splits)

lemma createAppointment_keeps_no_double_booking:
  assumes inv: "no_double_booking (appointments d)"
    and times: "\<forall>b \<in> set (appointments d). scheduled_end b > scheduled_start b"
  shows "no_double_booking
           (appointments (fst (createAppointment d now tenantId appointmentData appointmentId)))"
proof -
  let ?s = "ad_scheduled_start appointmentData"
  let ?e = "addMinutes ?s (ad_duration_minutes appointmentData)"
  let ?p = "ad_provider_id appointmentData"
  let ?rows' = "appointments (fst (createAppointment d now tenantId appointmentData appointmentId))"
  from createAppointment_table [of d now tenantId appointmentData appointmentId]
  consider "?rows' = appointments d"
    | a where "?rows' = appointments d @ [a]" "provider_id a = ?p" "scheduled_start a = ?s"
        "scheduled_end a = ?e" "?s < ?e"
        "checkAppointmentConflicts (appointments d) ?p ?s ?e = Inr ()"
    by auto
  then show ?thesis
  proof cases
    case 1
    then show ?thesis using inv by simp
  next
    case (2 a)
    have "\<not> is_conflict (checkAppointmentConflicts (appointments d) ?p ?s ?e)"
      using 2(6) by (simp add: is_conflict_def)
    then have free: "\<not> (\<exists>b \<in> set (appointments d). provider_id b = ?p \<and> live_status (status b) \<and>
                  scheduled_start b < ?e \<and> scheduled_end b > ?s)"
      using conflict_iff_overlap [OF 2(5) times] by simp
    have "\<not> list_ex (\<lambda>b. clash b a) (appointments d)"
      using free 2(2,3,4) by (auto simp: list_ex_iff clash_def)
    with inv show ?thesis by (simp add: 2(1) no_double_booking_append)
  qed
qed

text \<open>
  C1 (the code departs from the claim). \<open>updateAppointment\<close> writes whatever columns the
  request names, with no call of \<open>checkAppointmentConflicts\<close>. Two calls of
  \<open>createAppointment\<close> leave provider 1 with two live appointments, 10:00 to 10:30 and
  11:00 to 11:30, and no double booking. Moving the
  second to 10:15 until 10:45 through \<open>rescheduleAppointment\<close> is refused with
  \<open>ConflictError\<close>; through \<open>updateAppointment\<close> it commits, and the table then holds two
  live appointments of provider 1 that overlap.
\<close>

theorem update_breaks_no_double_booking:
  "fst (createAppointment
          (fst (createAppointment \<lparr>appointments = [], series = []\<rparr> 1764547200000 1
                  \<lparr> ad_patient_id = 1, ad_provider_id = 1, ad_facility_id = 1,
                    ad_scheduled_start = 1765792800000, ad_duration_minutes = 30 \<rparr> 1))
          1764547200000 1
          \<lparr> ad_patient_id = 2, ad_provider_id = 1, ad_facility_id = 1,
            ad_scheduled_start = 1765796400000, ad_duration_minutes = 30 \<rparr> 2) = db1
   \<and> no_double_booking (appointments db1)
   \<and> rescheduleAppointment db1 1 2 1765793700000 30 = Inl (ConflictError 1)
   \<and> (case updateAppointment db1 1 2 move_request of
         Inl _ \<Rightarrow> False
       | Inr (d', _) \<Rightarrow>
           map status (appointments d') = [Scheduled, Scheduled]
           \<and> \<not> no_double_booking (appointments d'))"
  by (simp add: db1_def booked_def second_booking_def move_request_def updateAppointment_def
      rescheduleAppointment_def getAppointmentById_def checkAppointmentConflicts_def
      conflict_rows_def addMinutes_def
      no_valid_fields_def set_columns_def update_appointments_def row_matches_def
      row_constraints_def chk_appointment_times_def idx_provider_time_violation_def
      live_status_def clash_def rows0_def Let_def createAppointment_def
      insert_appointment_def queueAppointmentNotifications_throws)

text \<open>
  C3 (counterexample). Provider 1 has the booked appointment only. Moving it by 15
  minutes, to 10:15 for 30 minutes, overlaps no appointment but itself, and
  \<open>rescheduleAppointment\<close> raises \<open>ConflictError\<close> naming the appointment's own id.
\<close>

theorem reschedule_own_slot_conflicts:
  "rescheduleAppointment db0 1 1 1765793700000 30 = Inl (ConflictError 1)"
  by (simp add: db0_def booked_def rescheduleAppointment_def getAppointmentById_def
      row_matches_def checkAppointmentConflicts_def conflict_rows_def live_status_def
      addMinutes_def)

text \<open>
  C3 (amended). For an existing appointment A, a table with unique ids whose rows end
  after they start, and a positive duration, \<open>rescheduleAppointment\<close> scans every live
  appointment of A's provider, A's own row included: it raises \<open>ConflictError\<close> exactly
  when one of them overlaps the new half-open interval, and otherwise commits, with
  start, end and duration of A's row rewritten and every other row unchanged.
\<close>

theorem reschedule_scans_every_live_row:
  assumes found: "getAppointmentById d tenantId appointmentId = Some a"
    and pk: "distinct (map appt_id (appointments d))"
    and times: "\<forall>b \<in> set (appointments d). scheduled_end b > scheduled_start b"
    and dur: "0 < duration"
  shows "(is_conflict (rescheduleAppointment d tenantId appointmentId newStart duration)
            = (\<exists>b \<in> set (appointments d). provider_id b = provider_id a \<and> live_status (status b) \<and>
                 scheduled_start b < addMinutes newStart duration \<and> scheduled_end b > newStart))
       \<and> (\<not> (\<exists>b \<in> set (appointments d). provider_id b = provider_id a \<and> live_status (status b) \<and>
                 scheduled_start b < addMinutes newStart duration \<and> scheduled_end b > newStart)
          \<longrightarrow> rescheduleAppointment d tenantId appointmentId newStart duration =
                Inr (d\<lparr>appointments :=
                        map (\<lambda>b. if row_matches tenantId appointmentId b
                                  then move_to newStart duration b else b) (appointments d)\<rparr>,
                     Some (move_to newStart duration a)))"
proof -
  let ?rows = "appointments d"
  let ?e = "addMinutes newStart duration"
  let ?g = "\<lambda>b. if row_matches tenantId appointmentId b then move_to newStart duration b else b"
  let ?busy = "\<exists>b \<in> set ?rows. provider_id b = provider_id a \<and> live_status (status b) \<and>
                 scheduled_start b < ?e \<and> scheduled_end b > newStart"
  have lt: "newStart < ?e" using dur by (simp add: addMinutes_def)
  have chk: "is_conflict (checkAppointmentConflicts ?rows (provider_id a) newStart ?e) = ?busy"
    by (rule conflict_iff_overlap [OF lt times])
  have a_in: "a \<in> set ?rows" and a_match: "row_matches tenantId appointmentId a"
    using find_Some_mem [OF found [unfolded getAppointmentById_def]] by auto
  show ?thesis
  proof (cases ?busy)
    case True
    then have "is_conflict (checkAppointmentConflicts ?rows (provider_id a) newStart ?e)"
      using chk by simp
    then obtain c where
      "checkAppointmentConflicts ?rows (provider_id a) newStart ?e = Inl (ConflictError c)"
      by (auto simp: is_conflict_def split: sum.splits error.splits)
    then have "rescheduleAppointment d tenantId appointmentId newStart duration
                 = Inl (ConflictError c)"
      by (simp add: rescheduleAppointment_def found Let_def)
    then show ?thesis using True by (simp add: is_conflict_def)
  next
    case False
    then have "\<not> is_conflict (checkAppointmentConflicts ?rows (provider_id a) newStart ?e)"
      using chk by simp
    then have ok: "checkAppointmentConflicts ?rows (provider_id a) newStart ?e = Inr ()"
      by (simp add: is_conflict_check check_ok_iff)
    have keep: "\<And>b. tenant_id (move_to newStart duration b) = tenant_id b \<and>
                   appt_id (move_to newStart duration b) = appt_id b"
      by (simp add: move_to_def)
    have ret: "filter (row_matches tenantId appointmentId) (map ?g ?rows)
                = map (move_to newStart duration) (filter (row_matches tenantId appointmentId) ?rows)"
      by (rule filter_map_matches [OF keep])
    have only_a: "\<And>b. b \<in> set ?rows \<Longrightarrow> row_matches tenantId appointmentId b \<Longrightarrow> b = a"
    proof -
      fix b assume "b \<in> set ?rows" "row_matches tenantId appointmentId b"
      then have "appt_id b = appt_id a" using a_match by (simp add: row_matches_def)
      with pk \<open>b \<in> set ?rows\<close> a_in show "b = a"
        by (meson distinct_map inj_onD)
    qed
    have cons: "\<And>r. r \<in> set (filter (row_matches tenantId appointmentId) (map ?g ?rows))
                  \<Longrightarrow> row_constraints (map ?g ?rows) r = Inr ()"
    proof -
      fix r assume "r \<in> set (filter (row_matches tenantId appointmentId) (map ?g ?rows))"
      then have r: "r = move_to newStart duration a"
        unfolding ret using only_a by auto
      have t: "chk_appointment_times r"
        using lt by (simp add: r chk_appointment_times_def move_to_def)
      have "\<not> idx_provider_time_violation (map ?g ?rows) r"
      proof
        assume "idx_provider_time_violation (map ?g ?rows) r"
        then obtain c0 where c0: "c0 \<in> set ?rows" "appt_id (?g c0) \<noteq> appt_id r"
          "live_status (status (?g c0))" "provider_id (?g c0) = provider_id r"
          "scheduled_start (?g c0) = scheduled_start r"
          by (auto simp: idx_provider_time_violation_def list_ex_iff)
        have "\<not> row_matches tenantId appointmentId c0"
          using c0(2) a_match by (auto simp: r move_to_def row_matches_def split: if_splits)
        then have same: "?g c0 = c0" by simp
        have "scheduled_start c0 = newStart" "provider_id c0 = provider_id a"
          "live_status (status c0)"
          using c0(3,4,5) unfolding same by (simp_all add: r move_to_def)
        moreover have "scheduled_end c0 > scheduled_start c0" using times c0(1) by blast
        ultimately have ?busy using c0(1) lt by force
        with False show False by simp
      qed
      with t show "row_constraints (map ?g ?rows) r = Inr ()"
        by (simp add: row_constraints_def)
    qed
    have fe: "first_error (map (row_constraints (map ?g ?rows))
                     (filter (row_matches tenantId appointmentId) (map ?g ?rows))) = Inr ()"
      unfolding first_error_ok_iff set_map using cons by blast
    obtain rest where rest: "filter (row_matches tenantId appointmentId) ?rows = a # rest"
      using find_filter_Cons [OF found [unfolded getAppointmentById_def]] by blast
    have upd: "update_appointments ?rows tenantId appointmentId (move_to newStart duration)
               = Inr (map ?g ?rows,
                      move_to newStart duration a # map (move_to newStart duration) rest)"
      using fe by (simp add: update_appointments_def Let_def ret rest)
    have "rescheduleAppointment d tenantId appointmentId newStart duration =
           Inr (d\<lparr>appointments := map ?g ?rows\<rparr>, Some (move_to newStart duration a))"
      using upd ok
      by (simp add: rescheduleAppointment_def found Let_def rows0_def move_to_def [abs_def])
    then show ?thesis using False by (simp add: is_conflict_def)
  qed
qed

text \<open>
  The amended statement at the booked appointment: a move to 14:00 the same day
  (\<open>1765807200000\<close>) for 45 minutes overlaps no live appointment and commits.
\<close>

theorem reschedule_scans_every_live_row_witness:
  "getAppointmentById db0 1 1 = Some booked
   \<and> distinct (map appt_id (appointments db0))
   \<and> scheduled_end booked > scheduled_start booked
   \<and> (0 :: int) < 45
   \<and> rescheduleAppointment db0 1 1 1765807200000 45 =
       Inr (db0\<lparr>appointments := [move_to 1765807200000 45 booked]\<rparr>,
            Some (move_to 1765807200000 45 booked))"
  using reschedule_scans_every_live_row [of db0 1 1 booked 45 1765807200000]
  by (simp add: db0_def booked_def getAppointmentById_def row_matches_def live_status_def
      addMinutes_def)






text \<open>
  C5 (the code departs from the claim). \<open>statusWorkflow\<close> allows no transition out of
  completed or cancelled, and neither \<open>cancelAppointment\<close> nor \<open>checkinAppointment\<close>
  consults it: a completed appointment is cancelled, and a cancelled one is checked in.
\<close>

theorem cancel_and_checkin_ignore_workflow:
  "\<not> isValidStatusTransition Completed Cancelled
   \<and> \<not> isValidStatusTransition Cancelled Arrived
   \<and> isValidStatusTransition Scheduled Confirmed
   \<and> cancelAppointment \<lparr>appointments = [booked\<lparr>status := Completed\<rparr>], series = []\<rparr> 5 1 1
       = Inr (\<lparr>appointments = [booked\<lparr>status := Cancelled, cancelled_at := Some 5\<rparr>],
               series = []\<rparr>,
              booked\<lparr>status := Cancelled, cancelled_at := Some 5\<rparr>)
   \<and> checkinAppointment \<lparr>appointments = [booked\<lparr>status := Cancelled\<rparr>], series = []\<rparr> 5 1 1
       = Inr (\<lparr>appointments = [booked\<lparr>status := Arrived, checked_in_at := Some 5\<rparr>],
               series = []\<rparr>,
              booked\<lparr>status := Arrived, checked_in_at := Some 5\<rparr>)"
  by (simp add: isValidStatusTransition_def booked_def cancelAppointment_def
      checkinAppointment_def update_appointments_def row_matches_def row_constraints_def
      chk_appointment_times_def idx_provider_time_violation_def live_status_def Let_def)


text \<open>Every slot returned starts after the time of evaluation.\<close>

lemma slots_of_day_future:
  "sl \<in> set (slots_of_day avail bookings now dayEnd slotStart) \<Longrightarrow> sl_start_time sl > now"
proof (induction avail bookings now dayEnd slotStart rule: slots_of_day.induct)
  case (1 avail bookings now dayEnd slotStart)
  show ?case
  proof (cases "slotStart < dayEnd")
    case True
    with "1.prems" "1.IH" show ?thesis
      by (subst (asm) slots_of_day.simps) (auto split: if_splits)
  next
    case False
    with "1.prems" show ?thesis by (subst (asm) slots_of_day.simps) simp
  qed
qed

lemma slots_from_future:
  "sl \<in> set (slots_from availability bookings now end currentDate) \<Longrightarrow> sl_start_time sl > now"
proof (induction availability bookings now "end" currentDate rule: slots_from.induct)
  case (1 availability bookings now "end" currentDate)
  show ?case
  proof (cases "currentDate \<le> end")
    case True
    with "1.prems" "1.IH" show ?thesis
      by (subst (asm) slots_from.simps) (auto dest: slots_of_day_future)
  next
    case False
    with "1.prems" show ?thesis by (subst (asm) slots_from.simps) simp
  qed
qed

lemma findAvailableSlots_future:
  "findAvailableSlots parse_throws table d now tenantId filters = Inr slots \<Longrightarrow>
   sl \<in> set slots \<Longrightarrow> sl_start_time sl > now"
  by (auto simp: findAvailableSlots_def calculateAvailableSlots_def split: if_splits
        dest: slots_from_future)

text \<open>
  A fetched appointment never books a slot: its two ends do not parse, and no
  comparison with them holds.
\<close>

lemma fetched_booking_never_books:
  "\<not> list_ex (\<lambda>b. date_less (Some slotStart) (bk_end b) \<and> date_less (bk_start b) (Some slotEnd))
        (filter P (bookedByProvider bookedAppointments))"
  by (simp add: list_ex_iff bookedByProvider_def pg_timestamp_def date_less_def)

text \<open>
  C9 (the code departs from the claim). The request asks for Monday 2025-12-15 alone,
  both dates at midnight. The appointments query keeps the rows that start between the
  two dates, so the booked appointment at 10:00 is not among them, and the slot from
  10:00 to 10:30 is returned although it overlaps that live appointment;
  \<open>createAppointment\<close> on the returned slot raises \<open>ConflictError\<close>. The same slot is
  returned when the range starts at 10:15, after the booked appointment has begun.
\<close>

theorem returned_slot_is_booked:
  "findAvailableSlots parse_throws [monday_rule] db0 1764547200000 1 monday_request
     = Inr [\<lparr> sl_provider_id = 1, sl_facility_id = 1, sl_start_time = 1765792800000,
              sl_end_time = 1765794600000, sl_duration_minutes = 30 \<rparr>,
            \<lparr> sl_provider_id = 1, sl_facility_id = 1, sl_start_time = 1765794600000,
              sl_end_time = 1765796400000, sl_duration_minutes = 30 \<rparr>]
   \<and> findAvailableSlots parse_throws [monday_rule] db0 1764547200000 1
        (monday_request\<lparr>f_startDate := 1765793700000, f_endDate := 1765843200000\<rparr>)
     = Inr [\<lparr> sl_provider_id = 1, sl_facility_id = 1, sl_start_time = 1765792800000,
              sl_end_time = 1765794600000, sl_duration_minutes = 30 \<rparr>,
            \<lparr> sl_provider_id = 1, sl_facility_id = 1, sl_start_time = 1765794600000,
              sl_end_time = 1765796400000, sl_duration_minutes = 30 \<rparr>]
   \<and> live_status (status booked) \<and> provider_id booked = 1
   \<and> overlaps_interval booked 1765792800000 1765794600000
   \<and> createAppointment db0 1764547200000 1
        \<lparr> ad_patient_id = 2, ad_provider_id = 1, ad_facility_id = 1,
          ad_scheduled_start = 1765792800000, ad_duration_minutes = 30 \<rparr> 14
     = (db0, Inl (ConflictError 1))"
  by (simp add: findAvailableSlots_def monday_request_def monday_rule_def db0_def booked_def
      calculateAvailableSlots_def availability_rows_def booked_rows_def live_status_def
      bookedByProvider_def
      startOfDay_def getDay_def setHours_def addDays_def addMinutes_def slotDuration_def
      slots_from.simps slots_of_day.simps
      overlaps_interval_def createAppointment_def checkAppointmentConflicts_def
      conflict_rows_def)

section \<open>Notifications: results\<close>

lemmas pipeline_defs =
  update_notifications_def chk_retry_count_def queueNotification_def scheduler_run_def
  getPendingNotifications_def order_by_def retry_candidates_def retry_one_def
  retryFailedNotifications_def getHours_def or_default_def isQuietHours_def present_def
  selectChannel_def notificationTemplates_def notification_with_patient_def
  processNotification_def run_steps_def addMinutes_def addHours_def Let_def
  consume_def consumer_requeues_def

text \<open>
  A window that ends at or before the hour it starts (one that crosses midnight) is
  never quiet; a window within the day is quiet at every hour.
\<close>

lemma quiet_window_across_midnight:
  assumes "or_default (quiet_hours_end preferences) 8 \<le> or_default (quiet_hours_start preferences) 22"
  shows "\<not> isQuietHours preferences currentHour"
  using assms by (auto simp: isQuietHours_def Let_def)

lemma quiet_window_within_day:
  assumes "quiet_hours_enabled preferences"
    and "or_default (quiet_hours_start preferences) 22 < or_default (quiet_hours_end preferences) 8"
  shows "isQuietHours preferences currentHour"
  using assms by (auto simp: isQuietHours_def Let_def)

text \<open>
  When \<open>isQuietHours\<close> holds, \<open>processNotification\<close> defers: the send time moves two
  hours on, the status is pending, no transport is invoked and \<open>retry_count\<close> is kept.
\<close>

lemma quiet_hours_deferral:
  assumes "notification_with_patient rows patients i = Some (n, p)"
    and "delivery_status n \<noteq> Delivered"
    and "isQuietHours (patient_preferences p) (getHours now)"
    and "retry_bounded rows"
  shows "processNotification rows patients now transport_ok i
           = \<lparr> pr_table = map (\<lambda>m. if n_id m = i
                                    then m\<lparr>scheduled_send_time := addHours (scheduled_send_time m) 2,
                                           delivery_status := Pending, updated_at := now\<rparr>
                                    else m) rows,
               pr_sent = None, pr_thrown = None \<rparr>"
proof -
  have "list_all chk_retry_count
          (map (\<lambda>m. m\<lparr>scheduled_send_time := addHours (scheduled_send_time m) 2,
                       delivery_status := Pending, updated_at := now\<rparr>)
               (filter (\<lambda>m. n_id m = i) rows))"
    using assms(4) by (auto simp: retry_bounded_def list_all_iff chk_retry_count_def)
  then have "update_notifications rows i
               (\<lambda>m. m\<lparr>scheduled_send_time := addHours (scheduled_send_time m) 2,
                       delivery_status := Pending\<rparr>) now
             = Inr (map (\<lambda>m. if n_id m = i
                              then m\<lparr>scheduled_send_time := addHours (scheduled_send_time m) 2,
                                     delivery_status := Pending, updated_at := now\<rparr>
                              else m) rows)"
    by (simp add: update_notifications_def Let_def)
  then show ?thesis using assms(1,2,3) by (simp add: processNotification_def)
qed

text \<open>
  C6 (the code departs from the claim). The two branches of \<open>isQuietHours\<close> are
  exchanged: a window that crosses midnight is tested with \<open>and\<close>. With quiet hours from
  22 to 8, no hour of the window counts as quiet, and a queued reminder processed at
  23:00 is sent by SMS and marked delivered instead of being deferred.
\<close>

theorem quiet_hours_window_never_quiet:
  "\<not> list_ex (isQuietHours (patient_preferences night_patient)) [22, 23, 0, 1, 2, 3, 4, 5, 6, 7]
   \<and> getHours 1765839600000 = 23
   \<and> processNotification [reminder\<lparr>delivery_status := Queued\<rparr>] [night_patient]
        1765839600000 True 1
     = \<lparr> pr_table = [reminder\<lparr>delivery_status := Delivered, sent_at := Some 1765839600000\<rparr>],
         pr_sent = Some Sms, pr_thrown = None \<rparr>"
  by (simp add: pipeline_defs night_patient_def reminder_def)

text \<open>The selection keeps at most 1000 rows, all pending and due.\<close>

lemma set_insert_sorted: "set (insert_sorted le x ys) = insert x (set ys)"
  by (induction ys) auto

lemma set_sort_by: "set (sort_by le xs) = set xs"
  by (induction xs) (simp_all add: set_insert_sorted)

lemma length_insert_sorted: "length (insert_sorted le x ys) = Suc (length ys)"
  by (induction ys) auto

lemma getPendingNotifications_selects:
  "length (getPendingNotifications rows now) \<le> 1000"
  "n \<in> set (getPendingNotifications rows now) \<Longrightarrow>
     n \<in> set rows \<and> delivery_status n = Pending \<and> scheduled_send_time n \<le> addMinutes now 5"
  by (auto simp: getPendingNotifications_def set_sort_by dest!: in_set_takeD)

text \<open>
  C8 (the code departs from the claim). \<open>ORDER BY priority DESC\<close> sorts the text of the
  priority: of four pending notifications due at the same time, the low one is selected
  before the high one, which \<open>getPriorityValue\<close> ranks above it.
\<close>

theorem pending_order_is_textual:
  "map priority (getPendingNotifications
      [reminder\<lparr>priority := High\<rparr>, reminder\<lparr>n_id := 2, priority := Low\<rparr>,
       reminder\<lparr>n_id := 3, priority := Urgent\<rparr>, reminder\<lparr>n_id := 4, priority := Medium\<rparr>]
      1765839600000) = [Urgent, Medium, Low, High]
   \<and> getPriorityValue Low < getPriorityValue High"
  by (simp add: pipeline_defs reminder_def)

subsection \<open>The retry bound\<close>

lemma update_notifications_bounded:
  assumes "update_notifications rows i f now = Inr rows'" and "retry_bounded rows"
  shows "retry_bounded rows'"
proof -
  let ?w = "\<lambda>n. (f n)\<lparr>updated_at := now\<rparr>"
  have ok: "list_all chk_retry_count (map ?w (filter (\<lambda>n. n_id n = i) rows))"
    and rows': "rows' = map (\<lambda>n. if n_id n = i then ?w n else n) rows"
    using assms(1) by (auto simp: update_notifications_def Let_def split: if_splits)
  have each: "\<And>n. n \<in> set rows \<Longrightarrow> chk_retry_count (if n_id n = i then ?w n else n)"
  proof -
    fix n assume n: "n \<in> set rows"
    show "chk_retry_count (if n_id n = i then ?w n else n)"
    proof (cases "n_id n = i")
      case True
      then show ?thesis using ok n by (auto simp: list_all_iff)
    next
      case False
      then show ?thesis using assms(2) n by (simp add: retry_bounded_def list_all_iff)
    qed
  qed
  show ?thesis unfolding rows' retry_bounded_def list_all_iff
  proof
    fix x assume "x \<in> set (map (\<lambda>n. if n_id n = i then ?w n else n) rows)"
    then obtain n where "n \<in> set rows" "x = (if n_id n = i then ?w n else n)"
      unfolding set_map by blast
    then show "chk_retry_count x" using each by simp
  qed
qed

lemma queueNotification_bounded:
  assumes "retry_bounded rows"
  shows "retry_bounded (fst (queueNotification rows now ok i))"
  using assms update_notifications_bounded
  by (auto simp: queueNotification_def split: sum.splits)

lemma scheduler_fold_bounded:
  "retry_bounded acc \<Longrightarrow>
   retry_bounded (fold (\<lambda>n acc. fst (queueNotification acc now (ok (n_id n)) (n_id n))) xs acc)"
  by (induction xs arbitrary: acc) (simp_all add: queueNotification_bounded)

lemma scheduler_run_bounded:
  "retry_bounded rows \<Longrightarrow> retry_bounded (scheduler_run rows now ok)"
  unfolding scheduler_run_def by (rule scheduler_fold_bounded)

lemma after_update_bounded:
  assumes "retry_bounded rows"
  shows "retry_bounded (pr_table (case update_notifications rows i f now of
            Inl e \<Rightarrow> \<lparr>pr_table = rows, pr_sent = s, pr_thrown = Some e\<rparr>
          | Inr rows' \<Rightarrow> \<lparr>pr_table = rows', pr_sent = s, pr_thrown = t\<rparr>))"
  using assms update_notifications_bounded [of rows i f now]
  by (cases "update_notifications rows i f now") simp_all

lemma processNotification_bounded:
  assumes "retry_bounded rows"
  shows "retry_bounded (pr_table (processNotification rows patients now ok i))"
proof (cases "notification_with_patient rows patients i")
  case None
  then show ?thesis using assms by (simp add: processNotification_def)
next
  case (Some np)
  obtain n p where np: "np = (n, p)" by (cases np)
  show ?thesis
    using assms after_update_bounded [OF assms]
    unfolding processNotification_def Some np
    by (simp add: Let_def split: option.splits)
qed

lemma retry_one_bounded:
  "retry_bounded (fst acc) \<Longrightarrow> retry_bounded (fst (retry_one now n acc))"
  using update_notifications_bounded
  by (auto simp: retry_one_def split: sum.splits)

lemma retry_fold_bounded:
  "retry_bounded (fst acc) \<Longrightarrow> retry_bounded (fst (fold (retry_one now) xs acc))"
  by (induction xs arbitrary: acc) (simp_all add: retry_one_bounded)

lemma retryFailedNotifications_bounded:
  "retry_bounded rows \<Longrightarrow> retry_bounded (fst (retryFailedNotifications rows now))"
  unfolding retryFailedNotifications_def by (rule retry_fold_bounded) simp

lemma do_step_bounded:
  "retry_bounded rows \<Longrightarrow> retry_bounded (do_step patients st rows)"
  by (cases st)
     (simp_all add: scheduler_run_bounded processNotification_bounded
        retryFailedNotifications_bounded)

lemma run_steps_bounded:
  "retry_bounded rows \<Longrightarrow> retry_bounded (run_steps patients steps rows)"
  unfolding run_steps_def
  by (induction steps arbitrary: rows) (simp_all add: do_step_bounded)

lemma failure_update:
  assumes "k \<le> 3"
  shows "update_notifications rows i
           (\<lambda>m. if k \<ge> 3 then m\<lparr>delivery_status := Failed, retry_count := k\<rparr>
                 else m\<lparr>delivery_status := Pending, retry_count := k,
                        scheduled_send_time := addMinutes now 30\<rparr>) now
         = Inr (map (\<lambda>m. if n_id m = i then after_failure now k m else m) rows)"
  using assms
  by (auto simp: update_notifications_def Let_def list_all_iff chk_retry_count_def
        after_failure_def)


text \<open>
  Below three retries a transport failure writes \<open>retry_count + 1\<close>: the row becomes
  failed when the new count is 3 and otherwise pending, due 30 minutes after the
  attempt.
\<close>

lemma transport_failure_below_three:
  assumes row: "notification_with_patient rows patients i = Some (n, p)"
    and undelivered: "delivery_status n \<noteq> Delivered"
    and awake: "\<not> isQuietHours (patient_preferences p) (getHours now)"
    and chan: "selectChannel (patient_preferences p) (patient_contact p) = Some c"
    and transport: "c \<noteq> Push"
    and template: "notification_type n \<in> set notificationTemplates"
    and budget: "retry_count n < 3"
  shows "processNotification rows patients now False i
           = \<lparr> pr_table = map (\<lambda>m. if n_id m = i then after_failure now (retry_count n + 1) m
                                    else m) rows,
               pr_sent = Some c, pr_thrown = Some TransportError \<rparr>"
proof -
  have k: "retry_count n + 1 \<le> 3" using budget by simp
  show ?thesis
  proof (cases "retry_count n + 1 \<ge> 3")
    case True
    with failure_update [OF k, of rows i now] show ?thesis
      using row undelivered awake chan transport template
      by (simp add: processNotification_def Let_def)
  next
    case False
    with failure_update [OF k, of rows i now] show ?thesis
      using row undelivered awake chan transport template
      by (simp add: processNotification_def Let_def)
  qed
qed

text \<open>
  From a table whose counts are at most 3, no sequence of scheduler runs, dispatcher
  calls and retry sweeps yields a count above 3.
\<close>

lemma retry_count_never_exceeds_three:
  assumes "\<forall>m \<in> set rows. retry_count m \<le> 3"
  shows "\<forall>m \<in> set (run_steps patients steps rows). retry_count m \<le> 3"
proof -
  have "retry_bounded rows"
    using assms by (simp add: retry_bounded_def list_all_iff chk_retry_count_def)
  then have "retry_bounded (run_steps patients steps rows)" by (rule run_steps_bounded)
  then show ?thesis
    by (simp add: retry_bounded_def list_all_iff chk_retry_count_def)
qed

text \<open>
  C7 (the code departs from the claim). After two failed attempts, a failed publish, a
  retry sweep and a last scheduling, the reminder is queued with \<open>retry_count = 3\<close>. A
  transport failure then runs the branch of the exhausted budget, whose update to
  \<open>retry_count = 4\<close> is refused by \<open>chk_retry_count\<close>: the transaction is rolled back,
  nothing is incremented, and the row stays queued instead of becoming failed.
  Nor is failed the end: the consumer puts back every message whose handler throws, and
  \<open>processNotification\<close> looks at no status but delivered. Of four deliveries of one
  message with a failing transport, the third leaves the row failed with
  \<open>retry_count = 3\<close>, and the fourth invokes the transport again; a delivery with a
  working transport then marks the failed row delivered.
\<close>

theorem retry_limit_is_not_terminal:
  "run_steps [plain_patient] retry_history [reminder]
     = [reminder\<lparr>delivery_status := Queued, retry_count := 3,
                 scheduled_send_time := 1765845060000, updated_at := 1765845060000\<rparr>]
   \<and> processNotification (run_steps [plain_patient] retry_history [reminder]) [plain_patient]
        1765845060000 False 1
     = \<lparr> pr_table = run_steps [plain_patient] retry_history [reminder],
         pr_sent = Some Sms, pr_thrown = Some (ConstraintViolation ''chk_retry_count'') \<rparr>
   \<and> consumer_requeues None
   \<and> redeliver [plain_patient] 1
        [(1765839600000, False), (1765839600000, False), (1765839600000, False),
         (1765839600000, False)]
        [reminder\<lparr>delivery_status := Queued\<rparr>]
     = ([reminder\<lparr>delivery_status := Failed, retry_count := 3,
                  scheduled_send_time := 1765841400000\<rparr>],
        [Some Sms, Some Sms, Some Sms, Some Sms])
   \<and> processNotification
        [reminder\<lparr>delivery_status := Failed, retry_count := 3,
                  scheduled_send_time := 1765841400000\<rparr>]
        [plain_patient] 1765839600000 True 1
     = \<lparr> pr_table = [reminder\<lparr>delivery_status := Delivered, retry_count := 3,
                                scheduled_send_time := 1765841400000,
                                sent_at := Some 1765839600000\<rparr>],
         pr_sent = Some Sms, pr_thrown = None \<rparr>"
  by (simp add: pipeline_defs plain_patient_def reminder_def retry_history_def)

section \<open>Medication reminders: results\<close>

text \<open>
  Every message published is scheduled after the time of evaluation, and the number of
  medication reminders is below 500 plus the number of reminder times of a day.
\<close>

lemma reminders_of_day_future:
  "m \<in> set (reminders_of_day med reminderTimes now currentDate) \<Longrightarrow> scheduledFor m > now"
  by (auto simp: reminders_of_day_def)

lemma length_reminders_of_day:
  "length (reminders_of_day med reminderTimes now currentDate) \<le> length reminderTimes"
  by (simp add: reminders_of_day_def le_trans [OF length_filter_le])

lemma reminders_from_future:
  "m \<in> set (reminders_from med reminderTimes now endDate currentDate reminderCount)
   \<Longrightarrow> scheduledFor m > now"
proof (induction med reminderTimes now endDate currentDate reminderCount rule: reminders_from.induct)
  case (1 med reminderTimes now endDate currentDate reminderCount)
  show ?case
  proof (cases "currentDate \<le> endDate \<and> reminderCount < 500")
    case True
    with "1.prems" "1.IH" show ?thesis
      by (subst (asm) reminders_from.simps) (auto dest: reminders_of_day_future)
  next
    case False
    with "1.prems" show ?thesis by (subst (asm) reminders_from.simps) auto
  qed
qed

lemma reminders_from_bound:
  "reminderCount + length (reminders_from med reminderTimes now endDate currentDate reminderCount)
   \<le> max reminderCount (499 + length reminderTimes)"
proof (induction med reminderTimes now endDate currentDate reminderCount rule: reminders_from.induct)
  case (1 med reminderTimes now endDate currentDate reminderCount)
  show ?case
  proof (cases "currentDate \<le> endDate \<and> reminderCount < 500")
    case True
    have d: "length (reminders_of_day med reminderTimes now currentDate) \<le> length reminderTimes"
      by (rule length_reminders_of_day)
    from "1.IH" [OF True] True d show ?thesis
      by (subst reminders_from.simps) (simp add: max_def split: if_splits)
  next
    case False
    then show ?thesis by (subst reminders_from.simps) auto
  qed
qed

lemma queueMedicationReminders_bound:
  "length (filter (\<lambda>m. msg_type m = Medication_reminder)
             (queueMedicationReminders parse_throws med now))
   \<le> 499 + length (parseFrequencyToReminderTimes (frequency med) (schedule_times med))"
proof -
  have refill: "filter (\<lambda>m. msg_type m = Medication_reminder) (refill_reminder med s now) = []"
    for s
    by (auto simp: refill_reminder_def split: option.splits nat.splits)
  have loop: "length (filter (\<lambda>m. msg_type m = Medication_reminder)
                  (reminders_from med
                     (parseFrequencyToReminderTimes (frequency med) (schedule_times med))
                     now e c 0))
              \<le> 499 + length (parseFrequencyToReminderTimes (frequency med) (schedule_times med))"
    for e c
    using reminders_from_bound [of 0 med
        "parseFrequencyToReminderTimes (frequency med) (schedule_times med)" now e c]
    by (simp add: le_trans [OF length_filter_le])
  show ?thesis
    by (simp add: queueMedicationReminders_def refill loop split: option.splits)
qed

lemma queueMedicationReminders_future:
  "m \<in> set (queueMedicationReminders parse_throws med now) \<Longrightarrow> scheduledFor m > now"
  by (auto simp: queueMedicationReminders_def refill_reminder_def
        dest: reminders_from_future split: option.splits nat.splits if_splits)

text \<open>
  When the dates are ISO strings, the bound of 500 is exceeded: tested once per day,
  it lets an ongoing medication taken every 4 hours reach 504 reminders.
\<close>

lemma string_dates_publish_504:
  "length (filter (\<lambda>m. msg_type m = Medication_reminder)
             (queueMedicationReminders False ongoing_medication 1764547200000)) = 504"
  by code_simp

text \<open>
  A medication that \<open>createMedication\<close> has created gets no horizon and no message.
\<close>

lemma created_medication_gets_no_reminders:
  assumes "createMedication parse_throws now patient medicationData newId = Inr (row, published)"
  shows "reminder_end_date row = None \<and> published = []"
  using assms
  by (auto simp: createMedication_def Let_def reminder_end_date_def
        queueMedicationReminders_def pg_timestamp_def split: if_splits option.splits)

text \<open>
  C10 (the code departs from the claim). \<open>createMedication\<close> hands
  \<open>queueMedicationReminders\<close> the inserted row, whose \<open>start_date\<close> is a \<open>Date\<close> object
  that \<open>parseISO\<close> does not read. For the ongoing medication taken every 4 hours from
  2025-12-15, created on 2025-12-01, the horizon is not the start date plus 90 days but
  \<open>Invalid Date\<close> (or none, \<open>parseISO\<close> having thrown), and no reminder is published;
  with the same dates as ISO strings the horizon is the start date plus 90 days.
\<close>

theorem created_medication_has_no_horizon:
  "createMedication parse_throws 1764547200000 7 ongoing_request 1
     = Inr (ongoing_medication\<lparr>start_date := DateObject 1765756800000\<rparr>, [])
   \<and> reminder_end_date (ongoing_medication\<lparr>start_date := DateObject 1765756800000\<rparr>) = None
   \<and> reminder_end_date ongoing_medication = Some (addDays 1765756800000 90)"
  by (simp add: createMedication_def ongoing_request_def ongoing_medication_def
      queueMedicationReminders_def reminder_end_date_def pg_timestamp_def Let_def)

end
